theory Spec2Isabelle
  imports Main "HOL-Library.Word"
begin

section \<open>Python string and path operations used by the module\<close>

text \<open>
  The module \<^verbatim>\<open>plugins/modules/uncompress.py\<close> works on Python strings and on POSIX
  paths. Strings are \<^typ>\<open>string\<close>; each operation below is the Python operation of the
  same name, restricted to the way the module calls it.
\<close>

definition startswith :: "string \<Rightarrow> string \<Rightarrow> bool" where
  \<comment> \<open>\<^verbatim>\<open>s.startswith(p)\<close>\<close>
  "startswith s p = (take (length p) s = p)"

definition endswith :: "string \<Rightarrow> string \<Rightarrow> bool" where
  \<comment> \<open>\<^verbatim>\<open>s.endswith(p)\<close>\<close>
  "endswith s p = (length p \<le> length s \<and> drop (length s - length p) s = p)"

definition drop_last :: "nat \<Rightarrow> string \<Rightarrow> string" where
  \<comment> \<open>\<^verbatim>\<open>s[:-n]\<close> for a positive \<open>n\<close>; the empty string when \<open>s\<close> is shorter than \<open>n\<close>\<close>
  "drop_last n s = take (length s - n) s"

fun str_in :: "string \<Rightarrow> string \<Rightarrow> bool" where
  \<comment> \<open>\<^verbatim>\<open>sub in s\<close>\<close>
  "str_in sub [] = (sub = [])"
| "str_in sub (c # cs) = (startswith (c # cs) sub \<or> str_in sub cs)"

fun split_after :: "string \<Rightarrow> string \<Rightarrow> string option" where
  \<comment> \<open>\<^verbatim>\<open>s.split(sep, 1)[1]\<close> for a non-empty \<open>sep\<close>: what follows the first occurrence
      of \<open>sep\<close>; \<open>None\<close> is Python's IndexError, when \<open>sep\<close> does not occur\<close>
  "split_after sep [] = None"
| "split_after sep (c # cs) =
     (if startswith (c # cs) sep then Some (drop (length sep) (c # cs))
      else split_after sep cs)"

definition split_before :: "char \<Rightarrow> string \<Rightarrow> string" where
  \<comment> \<open>\<^verbatim>\<open>s.split(c, 1)[0]\<close>: what precedes the first \<open>c\<close>, all of \<open>s\<close> when there is none\<close>
  "split_before c s = takeWhile (\<lambda>x. x \<noteq> c) s"

definition rsplit_last :: "char \<Rightarrow> string \<Rightarrow> string" where
  \<comment> \<open>\<^verbatim>\<open>s.rsplit(c, 1)[-1]\<close>: what follows the last \<open>c\<close>, all of \<open>s\<close> when there is none\<close>
  "rsplit_last c s = rev (takeWhile (\<lambda>x. x \<noteq> c) (rev s))"

definition rstrip_slash :: "string \<Rightarrow> string" where
  \<comment> \<open>\<^verbatim>\<open>s.rstrip('/')\<close>\<close>
  "rstrip_slash s = rev (dropWhile (\<lambda>x. x = CHR ''/'') (rev s))"

definition basename :: "string \<Rightarrow> string" where
  \<comment> \<open>\<^verbatim>\<open>os.path.basename\<close> (posixpath): what follows the last slash\<close>
  "basename p = rsplit_last CHR ''/'' p"

definition path_split :: "string \<Rightarrow> string \<times> string" where
  \<comment> \<open>\<^verbatim>\<open>os.path.split\<close> (posixpath): head and tail around the last slash; trailing slashes
      are stripped from the head unless it consists of slashes only\<close>
  "path_split p =
     (let tl = basename p;
          hd = take (length p - length tl) p
      in (if rstrip_slash hd = [] then hd else rstrip_slash hd, tl))"

definition path_join :: "string \<Rightarrow> string \<Rightarrow> string" where
  \<comment> \<open>\<^verbatim>\<open>os.path.join(a, b)\<close> (posixpath)\<close>
  "path_join a b =
     (if startswith b ''/'' then b
      else if a = [] \<or> endswith a ''/'' then a @ b
      else a @ ''/'' @ b)"

definition splitext :: "string \<Rightarrow> string \<times> string" where
  \<comment> \<open>\<^verbatim>\<open>os.path.splitext\<close> (posixpath): the extension starts at the last dot of the
      last path segment, unless only dots precede it in that segment\<close>
  "splitext p =
     (let seg = basename p;
          ext = rsplit_last CHR ''.'' seg;
          stem = take (length seg - length ext - 1) seg
      in if CHR ''.'' \<in> set seg \<and> \<not> list_all (\<lambda>c. c = CHR ''.'') stem
         then (take (length p - length ext - 1) p, CHR ''.'' # ext)
         else (p, []))"

fun digits :: "nat \<Rightarrow> string" where
  "digits n =
     (if n < 10 then [char_of (48 + n)]
      else digits (n div 10) @ [char_of (48 + n mod 10)])"

declare digits.simps [simp del]

definition str_int :: "int \<Rightarrow> string" where
  \<comment> \<open>\<^verbatim>\<open>"%s" % i\<close> for an integer\<close>
  "str_int i = (if i < 0 then CHR ''-'' # digits (nat (- i)) else digits (nat i))"

section \<open>The filename deriver\<close>

definition url_schemes :: "string list" where
  "url_schemes = [''http'', ''https'', ''ftp'', ''ftps'', ''file'']"

definition is_url :: "string \<Rightarrow> bool" where
  \<comment> \<open>the condition of line 132\<close>
  "is_url src =
     (str_in ''://'' src \<and> list_ex (\<lambda>scheme. startswith src (scheme @ ''://'')) url_schemes)"

definition source_filename :: "string \<Rightarrow> string" where
  \<comment> \<open>lines 132 to 140: the filename of a URL or of a local path\<close>
  "source_filename src =
     (if is_url src then
        (case split_after ''://'' src of
           Some path_part \<Rightarrow> split_before CHR ''?'' (rsplit_last CHR ''/'' path_part)
         | None \<Rightarrow> [])
      else basename src)"

definition strip_extension :: "string \<Rightarrow> string" where
  \<comment> \<open>lines 143 to 157\<close>
  "strip_extension filename =
     (if endswith filename ''.gz'' then drop_last 3 filename
      else if endswith filename ''.bz2'' then drop_last 4 filename
      else if endswith filename ''.xz'' then drop_last 3 filename
      else if endswith filename ''.lzma'' then drop_last 5 filename
      else if endswith filename ''.txz'' then drop_last 4 filename @ ''.tar''
      else if endswith filename ''.tlz'' then drop_last 4 filename @ ''.tar''
      else filename)"

definition derive_uncompressed_filename :: "string \<Rightarrow> string" where
  "derive_uncompressed_filename src = strip_extension (source_filename src)"

subsection \<open>The derivation as the specification words it\<close>

definition suffix_table :: "(string \<times> string) list" where
  "suffix_table =
     [(''.gz'', ''''), (''.bz2'', ''''), (''.xz'', ''''), (''.lzma'', ''''),
      (''.txz'', ''.tar''), (''.tlz'', ''.tar'')]"

fun rewrite_suffix :: "(string \<times> string) list \<Rightarrow> string \<Rightarrow> string" where
  \<comment> \<open>the first suffix of the table that the name ends with is replaced\<close>
  "rewrite_suffix [] name = name"
| "rewrite_suffix ((suf, rep) # rules) name =
     (if endswith name suf then take (length name - length suf) name @ rep
      else rewrite_suffix rules name)"

definition last_segment :: "string \<Rightarrow> string" where
  "last_segment s = rev (takeWhile (\<lambda>c. c \<noteq> CHR ''/'') (rev s))"

definition recognized_url :: "string \<Rightarrow> bool" where
  "recognized_url s =
     (startswith s ''http://'' \<or> startswith s ''https://'' \<or> startswith s ''ftp://''
      \<or> startswith s ''ftps://'' \<or> startswith s ''file://'')"

definition derive_spec :: "string \<Rightarrow> string" where
  \<comment> \<open>last path segment, for a recognized URL cut at its first question mark, then the
      suffix table\<close>
  "derive_spec s =
     rewrite_suffix suffix_table
       (if recognized_url s then takeWhile (\<lambda>c. c \<noteq> CHR ''?'') (last_segment s)
        else last_segment s)"

section \<open>The file system\<close>

text \<open>
  The module reads and changes files. The file system is a map from path strings to
  nodes; every function that touches it takes the state and returns the new one. A
  regular file has its bytes and its modification time, a directory the size that
  \<^verbatim>\<open>stat\<close> reports for it. Each file is reached by one spelling of its path, up to
  trailing slashes: links, repeated slashes inside a path and dot segments are outside
  the model, and so are permissions other than the read permission that the module asks
  for itself.
\<close>

type_synonym byte = "8 word"

datatype node = File (content: "byte list") (mtime: nat) | Dir (dirsize: nat)

type_synonym fs = "string \<Rightarrow> node option"

definition enoent :: "string \<Rightarrow> string" where
  "enoent p = ''[Errno 2] No such file or directory: '' @ [CHR 0x27] @ p @ [CHR 0x27]"

definition eacces :: "string \<Rightarrow> string" where
  "eacces p = ''[Errno 13] Permission denied: '' @ [CHR 0x27] @ p @ [CHR 0x27]"

definition eexist :: "string \<Rightarrow> string" where
  "eexist p = ''[Errno 17] File exists: '' @ [CHR 0x27] @ p @ [CHR 0x27]"

definition enotdir :: "string \<Rightarrow> string" where
  "enotdir p = ''[Errno 20] Not a directory: '' @ [CHR 0x27] @ p @ [CHR 0x27]"

definition eisdir :: "string \<Rightarrow> string" where
  "eisdir p = ''[Errno 21] Is a directory: '' @ [CHR 0x27] @ p @ [CHR 0x27]"

definition path_key :: "string \<Rightarrow> string" where
  \<comment> \<open>the spelling under which the map holds a non-empty path: no trailing slash\<close>
  "path_key p = (if rstrip_slash p = [] then ''/'' else rstrip_slash p)"

definition stat :: "fs \<Rightarrow> string \<Rightarrow> node option" where
  \<comment> \<open>\<^verbatim>\<open>os.stat\<close>, \<open>None\<close> when it raises; a path with a trailing slash names a
      directory or nothing\<close>
  "stat fs p =
     (if p = [] then None
      else case fs (path_key p) of
             None \<Rightarrow> None
           | Some (Dir n) \<Rightarrow> Some (Dir n)
           | Some (File c m) \<Rightarrow> if endswith p ''/'' then None else Some (File c m))"

definition exists :: "fs \<Rightarrow> string \<Rightarrow> bool" where
  \<comment> \<open>\<^verbatim>\<open>os.path.exists\<close>\<close>
  "exists fs p = (stat fs p \<noteq> None)"

definition isfile :: "fs \<Rightarrow> string \<Rightarrow> bool" where
  \<comment> \<open>\<^verbatim>\<open>os.path.isfile\<close>\<close>
  "isfile fs p = (case stat fs p of Some (File c m) \<Rightarrow> True | _ \<Rightarrow> False)"

definition isdir :: "fs \<Rightarrow> string \<Rightarrow> bool" where
  \<comment> \<open>\<^verbatim>\<open>os.path.isdir\<close>\<close>
  "isdir fs p = (case stat fs p of Some (Dir n) \<Rightarrow> True | _ \<Rightarrow> False)"

fun node_size :: "node \<Rightarrow> nat" where
  "node_size (File c m) = length c"
| "node_size (Dir n) = n"

definition getsize :: "fs \<Rightarrow> string \<Rightarrow> nat option" where
  \<comment> \<open>\<^verbatim>\<open>os.path.getsize\<close>, \<open>None\<close> when it raises\<close>
  "getsize fs p = map_option node_size (stat fs p)"

definition samefile :: "fs \<Rightarrow> string \<Rightarrow> string \<Rightarrow> bool" where
  \<comment> \<open>\<^verbatim>\<open>shutil._samefile\<close>: false when either path cannot be examined\<close>
  "samefile fs a b = (exists fs a \<and> exists fs b \<and> path_key a = path_key b)"

definition open_wb_error :: "fs \<Rightarrow> string \<Rightarrow> string option" where
  \<comment> \<open>the exception of \<^verbatim>\<open>open(p, 'wb')\<close>, if it raises: the path must not name a
      directory, and its parent must be one (a path without a directory part lies in the
      working directory)\<close>
  "open_wb_error fs p =
     (let parent = fst (path_split p) in
      if p = [] then Some (enoent p)
      else if isdir fs p \<or> endswith p ''/'' then Some (eisdir p)
      else if parent = [] \<or> isdir fs parent then None
      else if exists fs parent then Some (enotdir p)
      else Some (enoent p))"

definition write_file :: "fs \<Rightarrow> string \<Rightarrow> byte list \<Rightarrow> nat \<Rightarrow> fs" where
  "write_file fs p bs t = fs(p \<mapsto> File bs t)"

definition ancestors :: "string \<Rightarrow> string list" where
  \<comment> \<open>the directories above a path, the root apart\<close>
  "ancestors p = map (\<lambda>i. take i p) (filter (\<lambda>i. p ! i = CHR ''/'') [1..<length p])"

definition rename_tree :: "fs \<Rightarrow> string \<Rightarrow> string \<Rightarrow> fs" where
  \<comment> \<open>a directory and all that lies under it, moved from \<open>s\<close> to \<open>d\<close>\<close>
  "rename_tree fs s d =
     (\<lambda>p. if p = d then fs s
          else if startswith p (d @ ''/'') then fs (s @ drop (length d) p)
          else if p = s \<or> startswith p (s @ ''/'') then None
          else fs p)"

definition makedirs :: "fs \<Rightarrow> string list \<Rightarrow> fs" where
  \<comment> \<open>the missing directories of the list, created; 4096 is the size a new directory
      reports on the usual Linux file systems\<close>
  "makedirs fs ds = (\<lambda>p. if p \<in> set ds \<and> fs p = None then Some (Dir 4096) else fs p)"

definition move_to :: "fs \<Rightarrow> string \<Rightarrow> string \<Rightarrow> string \<Rightarrow> string + fs" where
  \<comment> \<open>The second half of \<^verbatim>\<open>shutil.move(src, dst)\<close> (Python 3):
      \<^verbatim>\<open>os.rename(src, real_dst)\<close>, and when that raises, copy and delete. Here
      \<open>real_dst\<close> is never an existing directory. \<open>Inl\<close> is the exception that leaves
      \<^verbatim>\<open>shutil.move\<close>.\<close>
  "move_to fs src dst real_dst =
     (case stat fs src of
        None \<Rightarrow> Inl (enoent src)
      | Some (File c m) \<Rightarrow>
          if isfile fs real_dst then
            Inr (if real_dst = src then fs else (fs(src := None))(real_dst \<mapsto> File c m))
          else (case open_wb_error fs real_dst of
                  Some e \<Rightarrow> Inl e
                | None \<Rightarrow> Inr ((fs(src := None))(real_dst \<mapsto> File c m)))
      | Some (Dir n) \<Rightarrow>
          let s = path_key src; d = path_key real_dst in
          if real_dst = [] then Inl (enoent real_dst)
          else if startswith d (s @ ''/'') then
            Inl (''Cannot move a directory '' @ [CHR 0x27] @ src @ [CHR 0x27]
                 @ '' into itself '' @ [CHR 0x27] @ dst @ [CHR 0x27] @ ''.'')
          else if exists fs real_dst then Inl (eexist real_dst)
          else if list_ex (\<lambda>a. isfile fs a) (ancestors d) then Inl (enotdir real_dst)
          else Inr (rename_tree (makedirs fs (ancestors d)) s d))"

definition shutil_move :: "fs \<Rightarrow> string \<Rightarrow> string \<Rightarrow> string + fs" where
  \<comment> \<open>\<^verbatim>\<open>shutil.move(src, dst)\<close> (Python 3): into \<open>dst\<close> when it is a directory, onto it
      otherwise\<close>
  "shutil_move fs src dst =
     (if isdir fs dst then
        if samefile fs src dst then Inr fs
        else
          let real_dst = path_join dst (basename (rstrip_slash src)) in
          if exists fs real_dst then
            Inl (''Destination path '' @ [CHR 0x27] @ real_dst @ [CHR 0x27]
                 @ '' already exists'')
          else move_to fs src dst real_dst
      else move_to fs src dst dst)"

definition filecmp_cmp :: "fs \<Rightarrow> string \<Rightarrow> string \<Rightarrow> bool \<Rightarrow> string + bool" where
  \<comment> \<open>\<^verbatim>\<open>filecmp.cmp(f1, f2, shallow)\<close>: the signature of a file is its type, size and
      modification time; two regular files with the same signature are taken as equal
      without being read when \<open>shallow\<close> is set, and are otherwise compared by size and
      then byte for byte. \<open>Inl\<close> is the exception of \<^verbatim>\<open>os.stat\<close>.\<close>
  "filecmp_cmp fs f1 f2 shallow =
     (case stat fs f1 of
        None \<Rightarrow> Inl (enoent f1)
      | Some n1 \<Rightarrow>
          (case stat fs f2 of
             None \<Rightarrow> Inl (enoent f2)
           | Some n2 \<Rightarrow>
               (case (n1, n2) of
                  (File c1 m1, File c2 m2) \<Rightarrow>
                    if shallow \<and> length c1 = length c2 \<and> m1 = m2 then Inr True
                    else if length c1 \<noteq> length c2 then Inr False
                    else Inr (c1 = c2)
                | _ \<Rightarrow> Inr False)))"

section \<open>The materializer\<close>

definition copyfile :: "fs \<Rightarrow> string \<Rightarrow> string \<Rightarrow> bool \<Rightarrow> (string + bool) \<times> fs" where
  \<comment> \<open>lines 228 to 254. \<open>Inr changed\<close> is the value returned, \<open>Inl\<close> an exception that
      leaves the function.\<close>
  "copyfile fs src dest deep_check =
     (if isfile fs dest then
        (case (if deep_check then filecmp_cmp fs src dest True
               else (case getsize fs dest of
                       None \<Rightarrow> Inl (enoent dest)
                     | Some destsize \<Rightarrow>
                         (case getsize fs src of
                            None \<Rightarrow> Inl (enoent src)
                          | Some srcsize \<Rightarrow>
                              if destsize \<noteq> srcsize then Inr False else Inr True))) of
           Inl e \<Rightarrow> (Inl e, fs)
         | Inr nodiff \<Rightarrow>
             if nodiff = False then
               (case shutil_move fs src dest of
                  Inl e \<Rightarrow> (Inl e, fs)
                | Inr fs' \<Rightarrow> (Inr True, fs'))
             else (Inr False, fs))
      else
        (case shutil_move fs src dest of
           Inl e \<Rightarrow> (Inl e, fs)
         | Inr fs' \<Rightarrow> (Inr True, fs')))"

section \<open>The environment of an invocation\<close>

text \<open>
  What the module gets from outside is a parameter of the model: the decoders of the
  \<^verbatim>\<open>gzip\<close> and \<^verbatim>\<open>bz2\<close> libraries, the commands \<^verbatim>\<open>file\<close> and \<^verbatim>\<open>xz\<close> run through
  \<^verbatim>\<open>module.run_command\<close>, \<^verbatim>\<open>fetch_url\<close>, \<^verbatim>\<open>os.path.expanduser\<close>, the read permission
  that \<^verbatim>\<open>os.access\<close> reports, the time stamp of the files written, and
  \<^verbatim>\<open>module.set_fs_attributes_if_different\<close>.
\<close>

datatype decoded =
    Decoded "byte list"
  | DecodeError string "byte list"
    \<comment> \<open>the decoder raised; the message of the exception and the bytes written before\<close>

datatype fetched =
    Fetched int "string + byte list"
    \<comment> \<open>the status, and what \<^verbatim>\<open>rsp.read()\<close> returns (\<open>Inr\<close>) or raises (\<open>Inl\<close>)\<close>
  | FetchRaised string

datatype attrs = Attrs bool | AttrsError string | AttrsFail string
  \<comment> \<open>\<^verbatim>\<open>set_fs_attributes_if_different\<close> returns the new flag, raises IOError or OSError,
      or calls \<^verbatim>\<open>fail_json\<close> itself\<close>

record env =
  expanduser :: "string \<Rightarrow> string"
  clock :: nat
  readable :: "string \<Rightarrow> bool"
  file_cmd :: "fs \<Rightarrow> string \<Rightarrow> string + string"
    \<comment> \<open>\<^verbatim>\<open>file -b -i src\<close>: its standard output, or the failure of running it\<close>
  xz_cmd :: "fs \<Rightarrow> string \<Rightarrow> string + fs"
    \<comment> \<open>\<^verbatim>\<open>xz -k -d src\<close>: the file system it leaves, or the failure of running it\<close>
  gzip_decode :: "byte list \<Rightarrow> decoded"
  bz2_decode :: "byte list \<Rightarrow> decoded"
  fetch_url :: "string \<Rightarrow> fetched"
  set_fs_attributes_if_different :: "fs \<Rightarrow> string \<Rightarrow> bool \<Rightarrow> attrs"

record params =
  p_src :: string
  p_dest :: string
  p_copy :: bool
  p_deep_check :: bool

datatype outcome =
    Exit_json bool string  \<comment> \<open>\<^verbatim>\<open>module.exit_json(changed=..., dest=...)\<close>\<close>
  | Fail_json string       \<comment> \<open>\<^verbatim>\<open>module.fail_json(msg=...)\<close>\<close>
  | Traceback string       \<comment> \<open>an exception that nothing catches\<close>

definition os_access :: "env \<Rightarrow> fs \<Rightarrow> string \<Rightarrow> bool" where
  \<comment> \<open>\<^verbatim>\<open>os.access(p, os.R_OK)\<close>\<close>
  "os_access env fs p = (exists fs p \<and> readable env p)"

definition open_rb_error :: "env \<Rightarrow> fs \<Rightarrow> string \<Rightarrow> string option" where
  \<comment> \<open>the exception of opening \<open>p\<close> for reading, if it raises\<close>
  "open_rb_error env fs p =
     (if \<not> exists fs p then Some (enoent p)
      else if isdir fs p then Some (eisdir p)
      else if \<not> readable env p then Some (eacces p)
      else None)"

section \<open>The decompressors\<close>

definition stream_copy ::
  "env \<Rightarrow> (byte list \<Rightarrow> decoded) \<Rightarrow> fs \<Rightarrow> string \<Rightarrow> string \<Rightarrow> string \<times> fs" where
  \<comment> \<open>The body shared by \<open>ungzip\<close> and \<open>unbzip\<close>: open \<open>src\<close> through the decoder, open
      \<open>dest\<close> for writing, which creates or empties it, then copy. The bytes are read
      after \<open>dest\<close> was emptied. The result is \<open>msg\<close>: empty, or the text of the exception.\<close>
  "stream_copy env decode fs src dest =
     (case open_rb_error env fs src of
        Some e \<Rightarrow> (e, fs)
      | None \<Rightarrow>
          (case open_wb_error fs dest of
             Some e \<Rightarrow> (e, fs)
           | None \<Rightarrow>
               let fs1 = write_file fs dest [] (clock env);
                   input = (case stat fs1 src of Some (File c m) \<Rightarrow> c | _ \<Rightarrow> [])
               in (case decode input of
                     Decoded out \<Rightarrow> ([], write_file fs dest out (clock env))
                   | DecodeError e part \<Rightarrow> (e, write_file fs dest part (clock env)))))"

definition ungzip :: "env \<Rightarrow> fs \<Rightarrow> string \<Rightarrow> string \<Rightarrow> string \<times> fs" where
  \<comment> \<open>lines 160 to 172\<close>
  "ungzip env fs src dest = stream_copy env (gzip_decode env) fs src dest"

definition unbzip :: "env \<Rightarrow> fs \<Rightarrow> string \<Rightarrow> string \<Rightarrow> string \<times> fs" where
  \<comment> \<open>lines 175 to 187\<close>
  "unbzip env fs src dest = stream_copy env (bz2_decode env) fs src dest"

definition unxzip :: "env \<Rightarrow> fs \<Rightarrow> string \<Rightarrow> string \<Rightarrow> (string + string) \<times> fs" where
  \<comment> \<open>lines 190 to 214. \<open>Inr msg\<close> is the value returned, \<open>Inl msg\<close> a call of
      \<^verbatim>\<open>module.fail_json\<close>, which ends the invocation: SystemExit passes the handler of
      \<^verbatim>\<open>Exception\<close>.\<close>
  "unxzip env fs src dest =
     (let (prefix, suffix) = splitext src in
      if \<not> (suffix = ''.xz'' \<or> suffix = ''.lzma'' \<or> suffix = ''.txz'' \<or> suffix = ''.tlz'')
      then (Inl (''xz does not understand suffix '' @ suffix), fs)
      else
        let ufile = (if suffix = ''.xz'' \<or> suffix = ''.lzma'' then prefix
                     else prefix @ ''.tar'')
        in (case xz_cmd env fs src of
              Inl e \<Rightarrow> (Inl e, fs)
            | Inr fs1 \<Rightarrow>
                if \<not> isfile fs1 ufile then
                  (Inl (src @ '' should have uncompressed to '' @ ufile
                        @ '', but alas it did not''), fs1)
                else (case shutil_move fs1 ufile dest of
                        Inl e \<Rightarrow> (Inr e, fs1)
                      | Inr fs2 \<Rightarrow> (Inr [], fs2))))"

definition filetype :: "env \<Rightarrow> fs \<Rightarrow> string \<Rightarrow> string + string" where
  \<comment> \<open>lines 217 to 225, with the \<^verbatim>\<open>[1]\<close> of line 327: the standard output of the command\<close>
  "filetype env fs src = file_cmd env fs src"

section \<open>The pipeline\<close>

definition tempdir :: string where
  "tempdir = ''/tmp/''"

definition resolve_dest :: "fs \<Rightarrow> string \<Rightarrow> string \<Rightarrow> string" where
  \<comment> \<open>lines 277 to 280\<close>
  "resolve_dest fs src dest =
     (if isdir fs dest then path_join dest (derive_uncompressed_filename src) else dest)"

definition failure_downloading :: "string \<Rightarrow> string \<Rightarrow> string" where
  "failure_downloading src e = ''Failure downloading '' @ src @ '', '' @ e"

definition download :: "env \<Rightarrow> fs \<Rightarrow> string \<Rightarrow> (string + string) \<times> fs" where
  \<comment> \<open>lines 290 to 305, reached when \<^verbatim>\<open>'://' in src\<close>: the source has a slash, so
      the index \<^verbatim>\<open>[1]\<close> of line 290 is valid. \<open>Inr package\<close> is the new source, \<open>Inl msg\<close>
      a call of \<^verbatim>\<open>fail_json\<close>.\<close>
  "download env fs src =
     (let package = path_join tempdir (rsplit_last CHR ''/'' src) in
      case fetch_url env src of
        FetchRaised e \<Rightarrow> (Inl (failure_downloading src e), fs)
      | Fetched status_code body \<Rightarrow>
          if status_code \<noteq> 200 then
            (Inl (failure_downloading src (str_int status_code)), fs)
          else (case open_wb_error fs package of
                  Some e \<Rightarrow> (Inl (failure_downloading src e), fs)
                | None \<Rightarrow>
                    (case body of
                       Inl e \<Rightarrow>
                         (Inl (failure_downloading src e),
                          write_file fs package [] (clock env))
                     | Inr bs \<Rightarrow> (Inr package, write_file fs package bs (clock env)))))"

definition resolve_source :: "env \<Rightarrow> fs \<Rightarrow> string \<Rightarrow> bool \<Rightarrow> (string + string) \<times> fs" where
  \<comment> \<open>lines 284 to 307\<close>
  "resolve_source env fs src copy =
     (if \<not> exists fs src then
        if copy then (Inl (''Source '' @ [CHR 0x27] @ src @ [CHR 0x27] @ '' failed to transfer''), fs)
        else if str_in ''://'' src then download env fs src
        else (Inl (''Source '' @ [CHR 0x27] @ src @ [CHR 0x27] @ '' does not exist''), fs)
      else (Inr src, fs))"

definition decompress :: "env \<Rightarrow> fs \<Rightarrow> string \<Rightarrow> string \<Rightarrow> (string + unit) \<times> fs" where
  \<comment> \<open>lines 326 to 337: detection, the decompressor it selects, and the test of its
      message. \<open>Inl msg\<close> is a call of \<^verbatim>\<open>fail_json\<close>.\<close>
  "decompress env fs src tempsrc =
     (case filetype env fs src of
        Inl e \<Rightarrow> (Inl e, fs)
      | Inr ftype \<Rightarrow>
          if str_in ''gzip'' ftype then
            (case ungzip env fs src tempsrc of
               (msg, fs') \<Rightarrow> (if msg \<noteq> [] then Inl msg else Inr (), fs'))
          else if str_in ''x-bzip2'' ftype then
            (case unbzip env fs src tempsrc of
               (msg, fs') \<Rightarrow> (if msg \<noteq> [] then Inl msg else Inr (), fs'))
          else if str_in ''x-xz'' ftype then
            (case unxzip env fs src tempsrc of
               (Inl e, fs') \<Rightarrow> (Inl e, fs')
             | (Inr msg, fs') \<Rightarrow> (if msg \<noteq> [] then Inl msg else Inr (), fs'))
          else (Inl (''Filetype not supported by uncompress module. '' @ ftype), fs))"

definition materialize ::
  "env \<Rightarrow> fs \<Rightarrow> string \<Rightarrow> string \<Rightarrow> bool \<Rightarrow> outcome \<times> fs" where
  \<comment> \<open>lines 338 to 348: the materializer, then the file attributes, then the result\<close>
  "materialize env fs tempsrc dest deep_check =
     (case copyfile fs tempsrc dest deep_check of
        (Inl e, fs') \<Rightarrow> (Traceback e, fs')
      | (Inr changed, fs') \<Rightarrow>
          (case set_fs_attributes_if_different env fs' dest changed of
             Attrs c \<Rightarrow> (Exit_json c dest, fs')
           | AttrsError e \<Rightarrow>
               (Fail_json (''Unexpected error when accessing exploded file: '' @ e), fs')
           | AttrsFail e \<Rightarrow> (Fail_json e, fs')))"

definition main :: "env \<Rightarrow> params \<Rightarrow> fs \<Rightarrow> outcome \<times> fs" where
  \<comment> \<open>lines 257 to 348\<close>
  "main env ps fs =
     (let src = expanduser env (p_src ps);
          dest = resolve_dest fs src (expanduser env (p_dest ps));
          (fdir, ffile) = path_split dest
      in case resolve_source env fs src (p_copy ps) of
           (Inl e, fs1) \<Rightarrow> (Fail_json e, fs1)
         | (Inr src, fs1) \<Rightarrow>
             (case getsize fs1 src of
                None \<Rightarrow> (Fail_json (''Source '' @ [CHR 0x27] @ src @ [CHR 0x27] @ '' not readable''), fs1)
              | Some n \<Rightarrow>
                  if n = 0 then
                    (Fail_json (''Invalid archive '' @ [CHR 0x27] @ src @ [CHR 0x27]
                                @ '', the file is 0 bytes''), fs1)
                  else if \<not> isdir fs1 fdir then
                    (Fail_json (''Destination '' @ [CHR 0x27] @ dest @ [CHR 0x27]
                                @ '' is not a directory''), fs1)
                  else if \<not> os_access env fs1 src then
                    (Fail_json (''Source '' @ [CHR 0x27] @ src @ [CHR 0x27] @ '' not readable''), fs1)
                  else
                    let tempsrc = path_join tempdir ffile in
                    (case decompress env fs1 src tempsrc of
                       (Inl e, fs2) \<Rightarrow> (Fail_json e, fs2)
                     | (Inr u, fs2) \<Rightarrow>
                         materialize env fs2 tempsrc dest (p_deep_check ps))))"

section \<open>A sample environment\<close>

text \<open>
  A small environment on which the model runs. A compressed file is two magic bytes
  followed by its payload; the decoders return the payload and fail at a zero byte, with
  the bytes before it already written. The \<^verbatim>\<open>file\<close> command reads the magic bytes, and
  the \<^verbatim>\<open>xz\<close> command writes the payload beside its source when the name of the source
  has a suffix it knows and the output does not exist yet.
\<close>

definition sniff :: "byte list \<Rightarrow> string" where
  "sniff bs =
     (if take 2 bs = [0x1f, 0x8b] then ''application/gzip; charset=binary''
      else if take 2 bs = [0x42, 0x5a] then ''application/x-bzip2; charset=binary''
      else if take 2 bs = [0xfd, 0x37] then ''application/x-xz; charset=binary''
      else ''text/plain; charset=us-ascii'')"

definition unwrap :: "byte list \<Rightarrow> byte list \<Rightarrow> decoded" where
  "unwrap magic bs =
     (if take 2 bs \<noteq> magic then DecodeError ''Not a compressed file'' []
      else if 0 \<in> set (drop 2 bs) then
        DecodeError ''Error -3 while decompressing data''
          (takeWhile (\<lambda>b. b \<noteq> 0) (drop 2 bs))
      else Decoded (drop 2 bs))"

definition sample_xz :: "fs \<Rightarrow> string \<Rightarrow> string + fs" where
  "sample_xz fs p =
     (let (prefix, suffix) = splitext p;
          out = (if suffix = ''.xz'' \<or> suffix = ''.lzma'' then prefix else prefix @ ''.tar'')
      in if exists fs out then Inr fs
         else if \<not> (suffix = ''.xz'' \<or> suffix = ''.lzma'' \<or> suffix = ''.txz''
                     \<or> suffix = ''.tlz'') then Inr fs
         else (case stat fs p of
                 Some (File c m) \<Rightarrow>
                   (case unwrap [0xfd, 0x37] c of
                      Decoded bs \<Rightarrow> Inr (write_file fs out bs 7)
                    | DecodeError e part \<Rightarrow> Inr fs)
               | _ \<Rightarrow> Inr fs))"

definition sample_env :: env where
  "sample_env =
     \<lparr> expanduser = (\<lambda>p. p), clock = 7, readable = (\<lambda>p. True),
       file_cmd = (\<lambda>fs p. Inr (case stat fs p of
                                  Some (File c m) \<Rightarrow> sniff c
                                | _ \<Rightarrow> ''inode/directory; charset=binary'')),
       xz_cmd = sample_xz,
       gzip_decode = unwrap [0x1f, 0x8b],
       bz2_decode = unwrap [0x42, 0x5a],
       fetch_url = (\<lambda>u. Fetched 200 (Inr [])),
       set_fs_attributes_if_different = (\<lambda>fs p c. Attrs c) \<rparr>"

definition base_fs :: fs where
  "base_fs = [''/'' \<mapsto> Dir 4096, ''/tmp'' \<mapsto> Dir 4096, ''/opt'' \<mapsto> Dir 4096,
              ''/data'' \<mapsto> Dir 4096]"

definition invocation :: "string \<Rightarrow> string \<Rightarrow> bool \<Rightarrow> bool \<Rightarrow> params" where
  "invocation s d c dc = \<lparr> p_src = s, p_dest = d, p_copy = c, p_deep_check = dc \<rparr>"

definition fs_same_signature :: fs where
  \<comment> \<open>a temp file and a destination of the same size and time, with different bytes\<close>
  "fs_same_signature =
     base_fs(''/tmp/foo'' \<mapsto> File [1, 2] 7, ''/opt/foo'' \<mapsto> File [3, 4] 7)"

definition fs_same_content :: fs where
  \<comment> \<open>a temp file and an older destination with the same bytes\<close>
  "fs_same_content =
     base_fs(''/tmp/foo'' \<mapsto> File [1, 2] 7, ''/opt/foo'' \<mapsto> File [1, 2] 3)"

definition fs_other_size :: fs where
  \<comment> \<open>a temp file and an older destination of another size\<close>
  "fs_other_size =
     base_fs(''/tmp/foo'' \<mapsto> File [1, 2] 7, ''/opt/foo'' \<mapsto> File [3, 4, 5] 3)"

definition fs_gz :: fs where
  \<comment> \<open>a gzip file with the payload 1, 2\<close>
  "fs_gz = base_fs(''/data/foo.gz'' \<mapsto> File [0x1f, 0x8b, 1, 2] 3)"

definition fs_gz_plain_name :: fs where
  \<comment> \<open>the same gzip file under a name without extension\<close>
  "fs_gz_plain_name = base_fs(''/data/foo'' \<mapsto> File [0x1f, 0x8b, 1, 2] 3)"

definition fs_bz_misnamed :: fs where
  \<comment> \<open>a bzip2 file under a name with the extension of another format\<close>
  "fs_bz_misnamed = base_fs(''/data/foo.gz'' \<mapsto> File [0x42, 0x5a, 1, 2] 3)"

definition fs_xz_plain_name :: fs where
  \<comment> \<open>an xz file under a name without extension\<close>
  "fs_xz_plain_name = base_fs(''/data/foo'' \<mapsto> File [0xfd, 0x37, 1, 2] 3)"

definition fs_xz :: fs where
  \<comment> \<open>an xz file with the payload 1, 2\<close>
  "fs_xz = base_fs(''/data/foo.xz'' \<mapsto> File [0xfd, 0x37, 1, 2] 3)"

definition fs_bad_gz :: fs where
  \<comment> \<open>a gzip file that is corrupt after one byte of payload, and a destination in /tmp\<close>
  "fs_bad_gz =
     base_fs(''/data/bad.gz'' \<mapsto> File [0x1f, 0x8b, 1, 0, 2] 3,
             ''/tmp/foo'' \<mapsto> File [9, 9, 9] 3)"

definition fs_text :: fs where
  \<comment> \<open>a text file\<close>
  "fs_text = base_fs(''/data/notes.txt'' \<mapsto> File [0x68, 0x69] 3)"

section \<open>Properties of the filename deriver\<close>

lemma rsplit_last_append: "rsplit_last c (xs @ c # ys) = rsplit_last c ys"
  by (simp add: rsplit_last_def takeWhile_tail)

lemma strip_extension_table: "strip_extension n = rewrite_suffix suffix_table n"
  by (simp add: strip_extension_def suffix_table_def drop_last_def eval_nat_numeral)

lemma startswith_decompose: "startswith s p \<Longrightarrow> s = p @ drop (length p) s"
  by (metis append_take_drop_id startswith_def)

lemma str_in_middle: "str_in sub (pre @ sub @ post)"
proof (induction pre)
  case Nil
  have "startswith (sub @ post) sub" by (simp add: startswith_def)
  then show ?case by (cases "sub @ post") (auto simp: startswith_def)
next
  case (Cons a pre)
  then show ?case by simp
qed

lemma startswith_str_in: "startswith s (a @ b) \<Longrightarrow> str_in b s"
  using str_in_middle [of b a "drop (length (a @ b)) s"] startswith_decompose [of s "a @ b"]
  by simp

lemma is_url_recognized: "is_url s = recognized_url s"
proof -
  have "startswith s ''http://'' \<Longrightarrow> str_in ''://'' s"
    "startswith s ''https://'' \<Longrightarrow> str_in ''://'' s"
    "startswith s ''ftp://'' \<Longrightarrow> str_in ''://'' s"
    "startswith s ''ftps://'' \<Longrightarrow> str_in ''://'' s"
    "startswith s ''file://'' \<Longrightarrow> str_in ''://'' s"
    using startswith_str_in [of s "''http''" "''://''"]
      startswith_str_in [of s "''https''" "''://''"]
      startswith_str_in [of s "''ftp''" "''://''"]
      startswith_str_in [of s "''ftps''" "''://''"]
      startswith_str_in [of s "''file''" "''://''"] by simp_all
  then show ?thesis
    unfolding is_url_def recognized_url_def url_schemes_def
    by (simp del: str_in.simps) blast
qed

lemma split_after_decompose: "split_after sep s = Some p \<Longrightarrow> \<exists>pre. s = pre @ sep @ p"
proof (induction s)
  case Nil
  then show ?case by simp
next
  case (Cons c cs)
  show ?case
  proof (cases "startswith (c # cs) sep")
    case True
    with Cons.prems have "p = drop (length sep) (c # cs)" by simp
    with startswith_decompose [OF True] have "c # cs = [] @ sep @ p" by simp
    then show ?thesis by blast
  next
    case False
    with Cons.prems have "split_after sep cs = Some p" by simp
    then obtain pre where "cs = pre @ sep @ p" using Cons.IH by blast
    then have "c # cs = (c # pre) @ sep @ p" by simp
    then show ?thesis by blast
  qed
qed

lemma str_in_split_after: "sep \<noteq> [] \<Longrightarrow> str_in sep s \<Longrightarrow> split_after sep s \<noteq> None"
  by (induction s) auto

lemma url_source_filename:
  assumes "is_url s"
  shows "source_filename s = takeWhile (\<lambda>c. c \<noteq> CHR ''?'') (last_segment s)"
proof -
  from assms have "str_in ''://'' s" by (simp add: is_url_def)
  then obtain p where p: "split_after ''://'' s = Some p"
    using str_in_split_after [of "''://''" s] by auto
  then obtain pre where "s = pre @ ''://'' @ p" using split_after_decompose by blast
  then have "s = (pre @ '':/'') @ CHR ''/'' # p" by simp
  then have "rsplit_last CHR ''/'' s = rsplit_last CHR ''/'' p"
    using rsplit_last_append by metis
  then show ?thesis using assms p
    by (simp add: source_filename_def split_before_def last_segment_def rsplit_last_def)
qed

lemma derive_refines_spec: "derive_uncompressed_filename s = derive_spec s"
proof (cases "is_url s")
  case True
  then show ?thesis
    by (simp add: derive_uncompressed_filename_def derive_spec_def strip_extension_table
        url_source_filename is_url_recognized [symmetric])
next
  case False
  then show ?thesis
    by (simp add: derive_uncompressed_filename_def derive_spec_def strip_extension_table
        is_url_recognized [symmetric] source_filename_def basename_def last_segment_def
        rsplit_last_def)
qed

text \<open>
  Claim C4. For every source path or URL string, \<open>derive_uncompressed_filename\<close> takes
  the last path segment, cut at its first question mark when the string is a URL of a
  recognized scheme, and rewrites its suffix by the first matching rule of the table
  \<open>.gz\<close>, \<open>.bz2\<close>, \<open>.xz\<close>, \<open>.lzma\<close> (stripped), \<open>.txz\<close>, \<open>.tlz\<close> (replaced by
  \<open>.tar\<close>); a name with none of these suffixes is returned as it is. The six names of
  the specification's table come out as listed.
\<close>

theorem derive_uncompressed_filename_correct:
  "(\<forall>src. derive_uncompressed_filename src = derive_spec src)
   \<and> derive_uncompressed_filename ''foo.gz'' = ''foo''
   \<and> derive_uncompressed_filename ''archive.tar.gz'' = ''archive.tar''
   \<and> derive_uncompressed_filename ''https://example.com/app.bz2'' = ''app''
   \<and> derive_uncompressed_filename
        ''https://example.com/download/file.gz?version=1.0&token=abc'' = ''file''
   \<and> derive_uncompressed_filename ''pkg.txz'' = ''pkg.tar''
   \<and> derive_uncompressed_filename ''README'' = ''README''"
proof -
  have "\<forall>src. derive_uncompressed_filename src = derive_spec src"
    by (simp add: derive_refines_spec)
  moreover have "derive_uncompressed_filename ''foo.gz'' = ''foo''" by code_simp
  moreover have "derive_uncompressed_filename ''archive.tar.gz'' = ''archive.tar''"
    by code_simp
  moreover have "derive_uncompressed_filename ''https://example.com/app.bz2'' = ''app''"
    by code_simp
  moreover have "derive_uncompressed_filename
      ''https://example.com/download/file.gz?version=1.0&token=abc'' = ''file''"
    by code_simp
  moreover have "derive_uncompressed_filename ''pkg.txz'' = ''pkg.tar''" by code_simp
  moreover have "derive_uncompressed_filename ''README'' = ''README''" by code_simp
  ultimately show ?thesis by blast
qed

section \<open>Evaluation of the model on concrete inputs\<close>

lemmas fs_eval = stat_def path_key_def rstrip_slash_def endswith_def startswith_def exists_def
  isfile_def isdir_def getsize_def samefile_def open_wb_error_def write_file_def path_split_def
  path_join_def basename_def rsplit_last_def splitext_def

lemmas main_eval = main_def Let_def resolve_dest_def resolve_source_def download_def
  os_access_def tempdir_def decompress_def filetype_def ungzip_def unbzip_def unxzip_def
  stream_copy_def open_rb_error_def materialize_def copyfile_def filecmp_cmp_def
  shutil_move_def move_to_def

lemmas sample_eval = sample_env_def sample_xz_def base_fs_def invocation_def sniff_def
  unwrap_def

section \<open>Properties of the file system operations\<close>

lemma stat_FileD:
  assumes "stat fs p = Some (File c m)"
  shows "p \<noteq> []" "\<not> endswith p ''/''" "path_key p = p" "fs p = Some (File c m)"
proof -
  from assms show 1: "p \<noteq> []" by (auto simp: stat_def)
  from assms show 2: "\<not> endswith p ''/''"
    by (auto simp: stat_def split: option.splits node.splits if_splits)
  from 1 2 have "last p \<noteq> CHR ''/''"
    by (cases p rule: rev_cases) (auto simp: endswith_def)
  with 1 have "rstrip_slash p = p"
    by (cases p rule: rev_cases) (auto simp: rstrip_slash_def)
  with 1 show 3: "path_key p = p" by (simp add: path_key_def)
  from assms 3 show "fs p = Some (File c m)"
    by (auto simp: stat_def split: option.splits node.splits if_splits)
qed

lemma isfile_stat: "isfile fs p = (\<exists>c m. stat fs p = Some (File c m))"
  by (auto simp: isfile_def split: option.splits node.splits)

lemma isdir_stat: "isdir fs p = (\<exists>n. stat fs p = Some (Dir n))"
  by (auto simp: isdir_def split: option.splits node.splits)

lemma stat_update_other:
  assumes "stat fs s = Some (File c m)" "t \<noteq> s"
  shows "stat (fs(t \<mapsto> v)) s = Some (File c m)"
  using stat_FileD [OF assms(1)] assms(2) by (simp add: stat_def)

lemma move_file_onto_file:
  assumes "stat fs a = Some (File c1 m1)" "stat fs b = Some (File c2 m2)" "a \<noteq> b"
  shows "shutil_move fs a b = Inr ((fs(a := None))(b \<mapsto> File c1 m1))"
  using assms by (simp add: shutil_move_def move_to_def isdir_def isfile_def)

lemma basename_append:
  assumes "CHR ''/'' \<notin> set name"
  shows "basename (pre @ CHR ''/'' # name) = name"
proof -
  from assms have "takeWhile (\<lambda>x. x \<noteq> CHR ''/'') (rev name) = rev name"
    by auto
  then have "takeWhile (\<lambda>x. x \<noteq> CHR ''/'') (rev (pre @ CHR ''/'' # name)) = rev name"
    by (simp add: takeWhile_tail)
  then show ?thesis unfolding basename_def rsplit_last_def by (simp only: rev_rev_ident)
qed

lemma path_split_tmp:
  assumes "CHR ''/'' \<notin> set name"
  shows "path_split (''/tmp/'' @ name) = (''/tmp'', name)"
proof -
  have b: "basename (''/tmp/'' @ name) = name"
    using basename_append [OF assms, of "''/tmp''"] by simp
  show ?thesis unfolding path_split_def Let_def b by (simp add: rstrip_slash_def)
qed

lemma tempsrc_tmp:
  "CHR ''/'' \<notin> set name \<Longrightarrow> name \<noteq> [] \<Longrightarrow> path_join tempdir name = ''/tmp/'' @ name"
  by (cases name) (auto simp: path_join_def tempdir_def startswith_def endswith_def)

lemma tmp_dest_is_temp:
  assumes "CHR ''/'' \<notin> set name" "name \<noteq> []"
  shows "path_join tempdir (snd (path_split (''/tmp/'' @ name))) = ''/tmp/'' @ name"
  unfolding path_split_tmp [OF assms(1)] using tempsrc_tmp [OF assms] by simp

lemma plain_key: "p \<noteq> [] \<Longrightarrow> \<not> endswith p ''/'' \<Longrightarrow> path_key p = p"
proof -
  assume 1: "p \<noteq> []" and 2: "\<not> endswith p ''/''"
  then have "last p \<noteq> CHR ''/''"
    by (cases p rule: rev_cases) (auto simp: endswith_def)
  with 1 have "rstrip_slash p = p"
    by (cases p rule: rev_cases) (auto simp: rstrip_slash_def)
  with 1 show ?thesis by (simp add: path_key_def)
qed

lemma stat_plain: "p \<noteq> [] \<Longrightarrow> \<not> endswith p ''/'' \<Longrightarrow> stat fs p = fs p"
  by (simp add: stat_def plain_key split: option.splits node.splits)

lemma stat_upd_other: "path_key p \<noteq> t \<Longrightarrow> stat (fs(t := v)) p = stat fs p"
  by (simp add: stat_def)

lemma isdir_key: "isdir fs d \<Longrightarrow> \<exists>n. fs (path_key d) = Some (Dir n)"
  by (auto simp: isdir_def stat_def split: option.splits node.splits if_splits)

lemma isdir_upd_other:
  assumes "isdir fs d" "\<not> isdir fs t" "t \<noteq> []" "\<not> endswith t ''/''"
  shows "isdir (fs(t := v)) d"
proof -
  from assms(1) obtain n where n: "fs (path_key d) = Some (Dir n)" using isdir_key by blast
  from assms(2-4) have "\<forall>n. fs t \<noteq> Some (Dir n)" by (auto simp: isdir_def stat_plain)
  with n have "path_key d \<noteq> t" by auto
  then have "stat (fs(t := v)) d = stat fs d" by (rule stat_upd_other)
  with assms(1) show ?thesis by (simp add: isdir_def)
qed

lemma open_wb_okD:
  assumes "open_wb_error fs t = None"
  shows "t \<noteq> []" "\<not> endswith t ''/''" "\<not> isdir fs t"
    "fst (path_split t) = [] \<or> isdir fs (fst (path_split t))"
  using assms by (auto simp: open_wb_error_def Let_def split: if_splits)

lemma basename_nonempty:
  assumes "basename p \<noteq> []"
  shows "p \<noteq> []" "\<not> endswith p ''/''"
proof -
  from assms show 1: "p \<noteq> []" by (auto simp: basename_def rsplit_last_def)
  from assms 1 have "last p \<noteq> CHR ''/''"
    by (cases p rule: rev_cases) (auto simp: basename_def rsplit_last_def)
  with 1 show "\<not> endswith p ''/''"
    by (cases p rule: rev_cases) (auto simp: endswith_def)
qed

lemma temp_ok_dest_plain:
  assumes "open_wb_error fs (path_join tempdir (snd (path_split dest))) = None"
  shows "dest \<noteq> []" "\<not> endswith dest ''/''"
proof -
  have "snd (path_split dest) = basename dest" by (simp add: path_split_def Let_def)
  moreover have "basename dest \<noteq> []"
  proof
    assume "basename dest = []"
    then have "path_join tempdir (snd (path_split dest)) = ''/tmp/''"
      by (simp add: path_split_def Let_def path_join_def tempdir_def startswith_def endswith_def)
    with assms show False by (simp add: open_wb_error_def Let_def endswith_def)
  qed
  ultimately show "dest \<noteq> []" "\<not> endswith dest ''/''" using basename_nonempty by auto
qed

section \<open>Properties of the materializer\<close>

text \<open>
  What the deep comparison of \<open>copyfile\<close> decides for two regular files: they count as
  equal when size and modification time agree, or when the bytes agree.
\<close>

lemma copyfile_deep_check:
  assumes "stat fs tempsrc = Some (File c1 m1)" "stat fs dest = Some (File c2 m2)"
  shows "copyfile fs tempsrc dest True =
     (if (length c1 = length c2 \<and> m1 = m2) \<or> c1 = c2 then (Inr False, fs)
      else (Inr True, (fs(tempsrc := None))(dest \<mapsto> File c1 m1)))"
proof (cases "(length c1 = length c2 \<and> m1 = m2) \<or> c1 = c2")
  case True
  with assms show ?thesis by (auto simp add: copyfile_def isfile_def filecmp_cmp_def)
next
  case False
  with assms have "tempsrc \<noteq> dest" by auto
  with assms False show ?thesis
    by (auto simp add: copyfile_def isfile_def filecmp_cmp_def move_file_onto_file)
qed

lemma copyfile_self:
  "copyfile fs p p deep =
     (if isfile fs p then (Inr False, fs)
      else if isdir fs p then (Inr True, fs)
      else (Inl (enoent p), fs))"
  by (auto simp: copyfile_def filecmp_cmp_def getsize_def isfile_stat isdir_stat
      shutil_move_def samefile_def exists_def move_to_def split: option.splits node.splits)

text \<open>
  Claim C1, on the input where the code departs from it. The claim: with
  \<open>deep_check\<close> set and the destination present, \<open>copyfile\<close> compares the temp file and
  the destination byte for byte, so that two files of equal size and different content
  give \<open>changed = True\<close> and the destination is overwritten. The code passes
  \<^verbatim>\<open>shallow=True\<close> to \<^verbatim>\<open>filecmp.cmp\<close>: two files of the same size and modification
  time are taken as equal without being read. Here the temp file holds 1, 2 and the
  destination 3, 4, both stamped 7; \<open>copyfile\<close> returns \<open>False\<close> and changes nothing.
\<close>

theorem copyfile_deep_check_equal_signature:
  "stat fs_same_signature ''/tmp/foo'' = Some (File [1, 2] 7)
   \<and> stat fs_same_signature ''/opt/foo'' = Some (File [3, 4] 7)
   \<and> copyfile fs_same_signature ''/tmp/foo'' ''/opt/foo'' True
       = (Inr False, fs_same_signature)"
  by (simp add: fs_same_signature_def fs_eval main_eval sample_eval)

text \<open>
  Claim C2, as amended. The claim: whenever \<open>copyfile\<close> returns \<open>changed = False\<close>, the
  temp file is removed. The module never deletes a file; what holds is: whenever
  \<open>copyfile\<close> returns \<open>changed = False\<close>, the destination is a regular file and the
  file system is left exactly as it was, the temp file still in its place.
\<close>

theorem copyfile_unchanged_leaves_file_system:
  assumes "copyfile fs tempsrc dest deep_check = (Inr False, fs')"
  shows "fs' = fs \<and> isfile fs dest"
  using assms by (auto simp: copyfile_def split: if_splits sum.splits option.splits)

theorem copyfile_unchanged_leaves_file_system_witness:
  "copyfile fs_same_content ''/tmp/foo'' ''/opt/foo'' True = (Inr False, fs_same_content)
   \<and> isfile fs_same_content ''/opt/foo''"
proof -
  have h: "copyfile fs_same_content ''/tmp/foo'' ''/opt/foo'' True
      = (Inr False, fs_same_content)"
    by (simp add: fs_same_content_def fs_eval main_eval sample_eval)
  from copyfile_unchanged_leaves_file_system [OF h] h show ?thesis by simp
qed

text \<open>
  The claim C2 as stated fails: the destination holds the bytes of the temp file,
  \<open>copyfile\<close> returns \<open>False\<close> under either comparison, and the temp file is still there.
\<close>

theorem copyfile_unchanged_keeps_temp_counterexample:
  "fst (copyfile fs_same_content ''/tmp/foo'' ''/opt/foo'' True) = Inr False
   \<and> fst (copyfile fs_same_content ''/tmp/foo'' ''/opt/foo'' False) = Inr False
   \<and> isfile (snd (copyfile fs_same_content ''/tmp/foo'' ''/opt/foo'' True)) ''/tmp/foo''
   \<and> isfile (snd (copyfile fs_same_content ''/tmp/foo'' ''/opt/foo'' False)) ''/tmp/foo''"
  by (simp add: fs_same_content_def fs_eval main_eval sample_eval)

text \<open>
  Claim C5. When the destination is a regular file and \<open>deep_check\<close> is not set,
  \<open>copyfile\<close> compares the sizes of the temp file and of the destination only: with
  equal sizes it returns \<open>changed = False\<close> and leaves the file system as it is, whatever
  the bytes are; with different sizes it moves the temp file onto the destination and
  returns \<open>changed = True\<close>.
\<close>

theorem copyfile_size_check:
  assumes "stat fs tempsrc = Some (File c1 m1)" and "stat fs dest = Some (File c2 m2)"
  shows "copyfile fs tempsrc dest False =
     (if length c1 = length c2 then (Inr False, fs)
      else (Inr True, (fs(tempsrc := None))(dest \<mapsto> File c1 m1)))"
proof (cases "length c1 = length c2")
  case True
  with assms show ?thesis by (simp add: copyfile_def isfile_def getsize_def)
next
  case False
  with assms have "tempsrc \<noteq> dest" by auto
  with assms False show ?thesis
    by (simp add: copyfile_def isfile_def getsize_def move_file_onto_file)
qed

theorem copyfile_size_check_witness:
  "copyfile fs_same_signature ''/tmp/foo'' ''/opt/foo'' False = (Inr False, fs_same_signature)
   \<and> copyfile fs_other_size ''/tmp/foo'' ''/opt/foo'' False
       = (Inr True, (fs_other_size(''/tmp/foo'' := None))(''/opt/foo'' \<mapsto> File [1, 2] 7))"
proof -
  have a: "stat fs_same_signature ''/tmp/foo'' = Some (File [1, 2] 7)"
    and b: "stat fs_same_signature ''/opt/foo'' = Some (File [3, 4] 7)"
    by (simp_all add: fs_same_signature_def fs_eval sample_eval)
  have c: "stat fs_other_size ''/tmp/foo'' = Some (File [1, 2] 7)"
    and d: "stat fs_other_size ''/opt/foo'' = Some (File [3, 4, 5] 3)"
    by (simp_all add: fs_other_size_def fs_eval sample_eval)
  from copyfile_size_check [OF a b] copyfile_size_check [OF c d] show ?thesis by simp
qed

section \<open>Properties of the pipeline\<close>

lemma stream_copy_file:
  assumes "stat fs s = Some (File c m)" "readable env s" "open_wb_error fs t = None" "t \<noteq> s"
  shows "stream_copy env decode fs s t =
     (case decode c of
        Decoded out \<Rightarrow> ([], fs(t \<mapsto> File out (clock env)))
      | DecodeError e part \<Rightarrow> (e, fs(t \<mapsto> File part (clock env))))"
proof -
  from assms(1,2) have "open_rb_error env fs s = None"
    by (simp add: open_rb_error_def exists_def isdir_def)
  moreover have "stat (write_file fs t [] (clock env)) s = Some (File c m)"
    unfolding write_file_def using assms(1,4) by (rule stat_update_other)
  ultimately show ?thesis using assms(3)
    by (simp add: stream_copy_def Let_def write_file_def split: decoded.splits)
qed

lemma main_reaches_decompress:
  assumes "resolve_source env fs (expanduser env (p_src ps)) (p_copy ps) = (Inr s, fs1)"
    and "stat fs1 s = Some (File c m)" and "c \<noteq> []" and "readable env s"
    and "dest = resolve_dest fs (expanduser env (p_src ps)) (expanduser env (p_dest ps))"
    and "isdir fs1 (fst (path_split dest))"
    and "tempsrc = path_join tempdir (snd (path_split dest))"
  shows "main env ps fs =
     (case decompress env fs1 s tempsrc of
        (Inl e, fs2) \<Rightarrow> (Fail_json e, fs2)
      | (Inr u, fs2) \<Rightarrow> materialize env fs2 tempsrc dest (p_deep_check ps))"
  using assms
  by (auto simp: main_def Let_def getsize_def os_access_def exists_def
      split: prod.splits sum.splits)

lemma materialize_Exit:
  assumes "materialize env fs t d deep = (Exit_json c d', fs')"
  shows "\<exists>ch. copyfile fs t d deep = (Inr ch, fs')
    \<and> set_fs_attributes_if_different env fs' d ch = Attrs c \<and> d' = d"
  using assms by (auto simp: materialize_def split: prod.splits sum.splits attrs.splits)

lemma main_Exit:
  assumes "main env ps fs = (Exit_json c d, fs')"
  shows "d = resolve_dest fs (expanduser env (p_src ps)) (expanduser env (p_dest ps)) \<and>
    (\<exists>fs2. materialize env fs2 (path_join tempdir (snd (path_split d))) d (p_deep_check ps)
       = (Exit_json c d, fs'))"
proof -
  let ?d = "resolve_dest fs (expanduser env (p_src ps)) (expanduser env (p_dest ps))"
  from assms obtain fs2 where
    m: "materialize env fs2 (path_join tempdir (snd (path_split ?d))) ?d (p_deep_check ps)
      = (Exit_json c d, fs')"
    by (auto simp: main_def Let_def split_def
        split: prod.splits sum.splits option.splits if_splits)
  then have "d = ?d" by (auto dest: materialize_Exit)
  with m show ?thesis by auto
qed

lemma main_stream:
  assumes "resolve_source env fs (expanduser env (p_src ps)) (p_copy ps) = (Inr s, fs1)"
    and "stat fs1 s = Some (File c m)" and "c \<noteq> []" and "readable env s"
    and "dest = resolve_dest fs (expanduser env (p_src ps)) (expanduser env (p_dest ps))"
    and "isdir fs1 (fst (path_split dest))"
    and "tempsrc = path_join tempdir (snd (path_split dest))"
    and "filetype env fs1 s = Inr ftype"
    and "open_wb_error fs1 tempsrc = None" and "tempsrc \<noteq> s"
    and "str_in ''gzip'' ftype \<and> gzip_decode env c = Decoded out
       \<or> \<not> str_in ''gzip'' ftype \<and> str_in ''x-bzip2'' ftype \<and> bz2_decode env c = Decoded out"
  shows "main env ps fs =
     materialize env (fs1(tempsrc \<mapsto> File out (clock env))) tempsrc dest (p_deep_check ps)"
proof -
  note m = main_reaches_decompress [OF assms(1-7)]
  note sc = stream_copy_file [OF assms(2,4,9,10)]
  from assms(8,11)
  have "decompress env fs1 s tempsrc = (Inr (), fs1(tempsrc \<mapsto> File out (clock env)))"
    by (auto simp: decompress_def ungzip_def unbzip_def sc)
  then show ?thesis by (simp add: m)
qed

lemma shutil_move_file:
  assumes "stat fs u = Some (File out mt)" and "open_wb_error fs t = None"
  shows "shutil_move fs u t = Inr ((fs(u := None))(t \<mapsto> File out mt))"
proof -
  note p = open_wb_okD [OF assms(2)]
  note q = stat_FileD [OF assms(1)]
  have same: "t = u \<Longrightarrow> fs = (fs(u := None))(t \<mapsto> File out mt)"
    using q(4) by auto
  show ?thesis
  proof (cases "isfile fs t")
    case True
    with assms p(3) same show ?thesis
      by (auto simp: shutil_move_def move_to_def)
  next
    case False
    with assms p(3) show ?thesis by (simp add: shutil_move_def move_to_def)
  qed
qed

lemma main_xz:
  assumes "resolve_source env fs (expanduser env (p_src ps)) (p_copy ps) = (Inr s, fs1)"
    and "stat fs1 s = Some (File c m)" and "c \<noteq> []" and "readable env s"
    and "dest = resolve_dest fs (expanduser env (p_src ps)) (expanduser env (p_dest ps))"
    and "isdir fs1 (fst (path_split dest))"
    and "tempsrc = path_join tempdir (snd (path_split dest))"
    and "filetype env fs1 s = Inr ftype"
    and "\<not> str_in ''gzip'' ftype" and "\<not> str_in ''x-bzip2'' ftype" and "str_in ''x-xz'' ftype"
    and "snd (splitext s) \<in> {''.xz'', ''.lzma'', ''.txz'', ''.tlz''}"
    and "ufile = (if snd (splitext s) = ''.xz'' \<or> snd (splitext s) = ''.lzma''
                  then fst (splitext s) else fst (splitext s) @ ''.tar'')"
    and "xz_cmd env fs1 s = Inr fs2"
    and "stat fs2 ufile = Some (File out mt)"
    and "open_wb_error fs2 tempsrc = None"
  shows "main env ps fs =
     materialize env ((fs2(ufile := None))(tempsrc \<mapsto> File out mt)) tempsrc dest
       (p_deep_check ps)"
proof -
  note m = main_reaches_decompress [OF assms(1-7)]
  have f: "isfile fs2 ufile" using assms(15) by (simp add: isfile_def)
  note mv = shutil_move_file [OF assms(15,16)]
  from assms(12,13,14) f mv
  have "unxzip env fs1 s tempsrc = (Inr [], (fs2(ufile := None))(tempsrc \<mapsto> File out mt))"
    by (auto simp: unxzip_def split_def Let_def)
  with assms(8-11)
  have "decompress env fs1 s tempsrc = (Inr (), (fs2(ufile := None))(tempsrc \<mapsto> File out mt))"
    by (simp add: decompress_def)
  then show ?thesis by (simp add: m)
qed

lemma main_xz_bad_suffix:
  assumes "resolve_source env fs (expanduser env (p_src ps)) (p_copy ps) = (Inr s, fs1)"
    and "stat fs1 s = Some (File c m)" and "c \<noteq> []" and "readable env s"
    and "dest = resolve_dest fs (expanduser env (p_src ps)) (expanduser env (p_dest ps))"
    and "isdir fs1 (fst (path_split dest))"
    and "filetype env fs1 s = Inr ftype"
    and "\<not> str_in ''gzip'' ftype" and "\<not> str_in ''x-bzip2'' ftype" and "str_in ''x-xz'' ftype"
    and "snd (splitext s) \<notin> {''.xz'', ''.lzma'', ''.txz'', ''.tlz''}"
  shows "main env ps fs =
     (Fail_json (''xz does not understand suffix '' @ snd (splitext s)), fs1)"
proof -
  note m = main_reaches_decompress [OF assms(1-6) refl]
  from assms(7-11)
  have "decompress env fs1 s (path_join tempdir (snd (path_split dest)))
        = (Inl (''xz does not understand suffix '' @ snd (splitext s)), fs1)"
    by (simp add: decompress_def unxzip_def split_def)
  then show ?thesis by (simp add: m)
qed

lemma tmp_dest_plain:
  assumes "CHR ''/'' \<notin> set name" "name \<noteq> []"
  shows "''/tmp/'' @ name \<noteq> []" "\<not> endswith (''/tmp/'' @ name) ''/''"
proof -
  have "basename (''/tmp/'' @ name) = name"
    using basename_append [OF assms(1), of "''/tmp''"] by simp
  with assms(2) have "basename (''/tmp/'' @ name) \<noteq> []" by simp
  then show "''/tmp/'' @ name \<noteq> []" "\<not> endswith (''/tmp/'' @ name) ''/''"
    by (rule basename_nonempty)+
qed

lemma materialize_self:
  assumes "fs d = Some (File out mt)" "d \<noteq> []" "\<not> endswith d ''/''"
  shows "copyfile fs d d deep = (Inr False, fs)"
    and "materialize env fs d d deep =
      (case set_fs_attributes_if_different env fs d False of
         Attrs c \<Rightarrow> (Exit_json c d, fs)
       | AttrsError e \<Rightarrow>
           (Fail_json (''Unexpected error when accessing exploded file: '' @ e), fs)
       | AttrsFail e \<Rightarrow> (Fail_json e, fs))"
proof -
  from assms have "isfile fs d" by (simp add: isfile_def stat_plain)
  then show c: "copyfile fs d d deep = (Inr False, fs)" by (simp add: copyfile_self)
  then show "materialize env fs d d deep =
      (case set_fs_attributes_if_different env fs d False of
         Attrs c \<Rightarrow> (Exit_json c d, fs)
       | AttrsError e \<Rightarrow>
           (Fail_json (''Unexpected error when accessing exploded file: '' @ e), fs)
       | AttrsFail e \<Rightarrow> (Fail_json e, fs))"
    by (simp add: materialize_def)
qed

text \<open>
  Claim C3, as amended. The claim: a source whose content is detected as gzip, bzip2 or
  xz is decompressed by the matching decompressor whatever its name is. For gzip and
  bzip2 this holds: once the source is resolved to a non-empty readable file and the
  destination's directory exists, the pipeline hands the bytes of the source to the
  decoder of the detected format and materializes the decoder's output, provided the temp
  path can be written and is not the source; the name of the source plays no part. For
  xz the name decides. When it ends in \<open>.xz\<close>, \<open>.lzma\<close>, \<open>.txz\<close> or \<open>.tlz\<close>, the module
  predicts from it the file that \<^verbatim>\<open>xz\<close> writes (the name without \<open>.xz\<close> or \<open>.lzma\<close>, or
  with \<open>.tar\<close> in place of \<open>.txz\<close> or \<open>.tlz\<close>): when \<^verbatim>\<open>xz\<close> leaves a regular file there
  and the temp path can be written, the pipeline moves that file to the temp path and
  materializes it. With any other name the pipeline fails with
  \<open>xz does not understand suffix\<close> and the suffix, before \<^verbatim>\<open>xz\<close> is run.
\<close>

theorem main_routes_by_content:
  assumes "resolve_source env fs (expanduser env (p_src ps)) (p_copy ps) = (Inr s, fs1)"
    and "stat fs1 s = Some (File c m)" and "c \<noteq> []" and "readable env s"
    and "dest = resolve_dest fs (expanduser env (p_src ps)) (expanduser env (p_dest ps))"
    and "isdir fs1 (fst (path_split dest))"
    and "tempsrc = path_join tempdir (snd (path_split dest))"
    and "filetype env fs1 s = Inr ftype"
    and "ufile = (if snd (splitext s) = ''.xz'' \<or> snd (splitext s) = ''.lzma''
                  then fst (splitext s) else fst (splitext s) @ ''.tar'')"
  shows "(str_in ''gzip'' ftype \<and> gzip_decode env c = Decoded out
            \<and> open_wb_error fs1 tempsrc = None \<and> tempsrc \<noteq> s \<longrightarrow>
            main env ps fs =
              materialize env (fs1(tempsrc \<mapsto> File out (clock env))) tempsrc dest
                (p_deep_check ps))
       \<and> (\<not> str_in ''gzip'' ftype \<and> str_in ''x-bzip2'' ftype
            \<and> bz2_decode env c = Decoded out
            \<and> open_wb_error fs1 tempsrc = None \<and> tempsrc \<noteq> s \<longrightarrow>
            main env ps fs =
              materialize env (fs1(tempsrc \<mapsto> File out (clock env))) tempsrc dest
                (p_deep_check ps))
       \<and> (\<not> str_in ''gzip'' ftype \<and> \<not> str_in ''x-bzip2'' ftype \<and> str_in ''x-xz'' ftype
            \<and> snd (splitext s) \<in> {''.xz'', ''.lzma'', ''.txz'', ''.tlz''}
            \<and> xz_cmd env fs1 s = Inr fsx \<and> stat fsx ufile = Some (File out mt)
            \<and> open_wb_error fsx tempsrc = None \<longrightarrow>
            main env ps fs =
              materialize env ((fsx(ufile := None))(tempsrc \<mapsto> File out mt)) tempsrc dest
                (p_deep_check ps))
       \<and> (\<not> str_in ''gzip'' ftype \<and> \<not> str_in ''x-bzip2'' ftype \<and> str_in ''x-xz'' ftype
            \<and> snd (splitext s) \<notin> {''.xz'', ''.lzma'', ''.txz'', ''.tlz''} \<longrightarrow>
            main env ps fs =
              (Fail_json (''xz does not understand suffix '' @ snd (splitext s)), fs1))"
proof (intro conjI impI)
  assume "str_in ''gzip'' ftype \<and> gzip_decode env c = Decoded out
            \<and> open_wb_error fs1 tempsrc = None \<and> tempsrc \<noteq> s"
  then show "main env ps fs =
      materialize env (fs1(tempsrc \<mapsto> File out (clock env))) tempsrc dest (p_deep_check ps)"
    using main_stream [OF assms(1-8), of out] by blast
next
  assume "\<not> str_in ''gzip'' ftype \<and> str_in ''x-bzip2'' ftype
            \<and> bz2_decode env c = Decoded out
            \<and> open_wb_error fs1 tempsrc = None \<and> tempsrc \<noteq> s"
  then show "main env ps fs =
      materialize env (fs1(tempsrc \<mapsto> File out (clock env))) tempsrc dest (p_deep_check ps)"
    using main_stream [OF assms(1-8), of out] by blast
next
  assume "\<not> str_in ''gzip'' ftype \<and> \<not> str_in ''x-bzip2'' ftype \<and> str_in ''x-xz'' ftype
            \<and> snd (splitext s) \<in> {''.xz'', ''.lzma'', ''.txz'', ''.tlz''}
            \<and> xz_cmd env fs1 s = Inr fsx \<and> stat fsx ufile = Some (File out mt)
            \<and> open_wb_error fsx tempsrc = None"
  then show "main env ps fs =
      materialize env ((fsx(ufile := None))(tempsrc \<mapsto> File out mt)) tempsrc dest
        (p_deep_check ps)"
    using main_xz [OF assms(1-8) _ _ _ _ assms(9)] by blast
next
  assume "\<not> str_in ''gzip'' ftype \<and> \<not> str_in ''x-bzip2'' ftype \<and> str_in ''x-xz'' ftype
            \<and> snd (splitext s) \<notin> {''.xz'', ''.lzma'', ''.txz'', ''.tlz''}"
  then show "main env ps fs =
      (Fail_json (''xz does not understand suffix '' @ snd (splitext s)), fs1)"
    using main_xz_bad_suffix [OF assms(1-6,8)] by blast
qed

theorem main_routes_by_content_witness:
  "main sample_env (invocation ''/data/foo'' ''/opt/foo'' True False) fs_gz_plain_name
     = materialize sample_env (fs_gz_plain_name(''/tmp/foo'' \<mapsto> File [1, 2] 7))
         ''/tmp/foo'' ''/opt/foo'' False
   \<and> main sample_env (invocation ''/data/foo.gz'' ''/opt/foo'' True False) fs_bz_misnamed
     = materialize sample_env (fs_bz_misnamed(''/tmp/foo'' \<mapsto> File [1, 2] 7))
         ''/tmp/foo'' ''/opt/foo'' False
   \<and> main sample_env (invocation ''/data/foo.xz'' ''/opt/foo'' True False) fs_xz
     = materialize sample_env
         ((fs_xz(''/data/foo'' \<mapsto> File [1, 2] 7))(''/data/foo'' := None,
            ''/tmp/foo'' \<mapsto> File [1, 2] 7))
         ''/tmp/foo'' ''/opt/foo'' False
   \<and> main sample_env (invocation ''/data/foo'' ''/opt/foo'' True False) fs_xz_plain_name
     = (Fail_json ''xz does not understand suffix '', fs_xz_plain_name)"
proof -
  let ?ps = "invocation ''/data/foo'' ''/opt/foo'' True False"
  let ?qs = "invocation ''/data/foo.gz'' ''/opt/foo'' True False"
  let ?xs = "invocation ''/data/foo.xz'' ''/opt/foo'' True False"
  let ?fx = "fs_xz(''/data/foo'' \<mapsto> File [1, 2] 7)"
  have k: "clock sample_env = 7" "p_deep_check ?ps = False" "p_deep_check ?qs = False"
    "p_deep_check ?xs = False"
    by (simp_all add: sample_env_def invocation_def)
  have t: "''/tmp/foo'' = path_join tempdir (snd (path_split ''/opt/foo''))"
    by (simp add: fs_eval tempdir_def)
  have ne: "[0x1f, 0x8b, 1, 2] \<noteq> ([] :: byte list)" "[0x42, 0x5a, 1, 2] \<noteq> ([] :: byte list)"
    "[0xfd, 0x37, 1, 2] \<noteq> ([] :: byte list)" by simp_all
  have r: "readable sample_env ''/data/foo''" "readable sample_env ''/data/foo.gz''"
    "readable sample_env ''/data/foo.xz''"
    by (simp_all add: sample_env_def)
  \<comment> \<open>gzip data in a file without extension\<close>
  have g1: "resolve_source sample_env fs_gz_plain_name (expanduser sample_env (p_src ?ps))
      (p_copy ?ps) = (Inr ''/data/foo'', fs_gz_plain_name)"
    by (simp add: fs_gz_plain_name_def fs_eval main_eval sample_eval)
  have g2: "stat fs_gz_plain_name ''/data/foo'' = Some (File [0x1f, 0x8b, 1, 2] 3)"
    by (simp add: fs_gz_plain_name_def fs_eval sample_eval)
  have g5: "''/opt/foo'' = resolve_dest fs_gz_plain_name (expanduser sample_env (p_src ?ps))
      (expanduser sample_env (p_dest ?ps))"
    by (simp add: fs_gz_plain_name_def fs_eval main_eval sample_eval)
  have g6: "isdir fs_gz_plain_name (fst (path_split ''/opt/foo''))"
    by (simp add: fs_gz_plain_name_def fs_eval main_eval sample_eval)
  have g8: "filetype sample_env fs_gz_plain_name ''/data/foo''
      = Inr ''application/gzip; charset=binary''"
    by (simp add: fs_gz_plain_name_def fs_eval main_eval sample_eval)
  have g: "str_in ''gzip'' ''application/gzip; charset=binary''
       \<and> gzip_decode sample_env [0x1f, 0x8b, 1, 2] = Decoded [1, 2]
       \<and> open_wb_error fs_gz_plain_name ''/tmp/foo'' = None
       \<and> ''/tmp/foo'' \<noteq> ''/data/foo''"
    by (simp add: fs_gz_plain_name_def fs_eval sample_eval)
  have G: "main sample_env ?ps fs_gz_plain_name
     = materialize sample_env (fs_gz_plain_name(''/tmp/foo'' \<mapsto> File [1, 2] 7))
         ''/tmp/foo'' ''/opt/foo'' False"
    using main_routes_by_content [where out = "[1, 2]" and fsx = fs_gz and mt = 0,
        OF g1 g2 ne(1) r(1) g5 g6 t g8 refl, unfolded k] g
    by blast
  \<comment> \<open>bzip2 data in a file named as a gzip file\<close>
  have b1: "resolve_source sample_env fs_bz_misnamed (expanduser sample_env (p_src ?qs))
      (p_copy ?qs) = (Inr ''/data/foo.gz'', fs_bz_misnamed)"
    by (simp add: fs_bz_misnamed_def fs_eval main_eval sample_eval)
  have b2: "stat fs_bz_misnamed ''/data/foo.gz'' = Some (File [0x42, 0x5a, 1, 2] 3)"
    by (simp add: fs_bz_misnamed_def fs_eval sample_eval)
  have b5: "''/opt/foo'' = resolve_dest fs_bz_misnamed (expanduser sample_env (p_src ?qs))
      (expanduser sample_env (p_dest ?qs))"
    by (simp add: fs_bz_misnamed_def fs_eval main_eval sample_eval)
  have b6: "isdir fs_bz_misnamed (fst (path_split ''/opt/foo''))"
    by (simp add: fs_bz_misnamed_def fs_eval main_eval sample_eval)
  have b8: "filetype sample_env fs_bz_misnamed ''/data/foo.gz''
      = Inr ''application/x-bzip2; charset=binary''"
    by (simp add: fs_bz_misnamed_def fs_eval main_eval sample_eval)
  have b: "\<not> str_in ''gzip'' ''application/x-bzip2; charset=binary''
       \<and> str_in ''x-bzip2'' ''application/x-bzip2; charset=binary''
       \<and> bz2_decode sample_env [0x42, 0x5a, 1, 2] = Decoded [1, 2]
       \<and> open_wb_error fs_bz_misnamed ''/tmp/foo'' = None
       \<and> ''/tmp/foo'' \<noteq> ''/data/foo.gz''"
    by (simp add: fs_bz_misnamed_def fs_eval sample_eval)
  have B: "main sample_env ?qs fs_bz_misnamed
     = materialize sample_env (fs_bz_misnamed(''/tmp/foo'' \<mapsto> File [1, 2] 7))
         ''/tmp/foo'' ''/opt/foo'' False"
    using main_routes_by_content [where out = "[1, 2]" and fsx = fs_gz and mt = 0,
        OF b1 b2 ne(2) r(2) b5 b6 t b8 refl, unfolded k] b
    by blast
  \<comment> \<open>xz data in a file with the suffix \<open>.xz\<close>\<close>
  have c1: "resolve_source sample_env fs_xz (expanduser sample_env (p_src ?xs))
      (p_copy ?xs) = (Inr ''/data/foo.xz'', fs_xz)"
    by (simp add: fs_xz_def fs_eval main_eval sample_eval)
  have c2: "stat fs_xz ''/data/foo.xz'' = Some (File [0xfd, 0x37, 1, 2] 3)"
    by (simp add: fs_xz_def fs_eval sample_eval)
  have c5: "''/opt/foo'' = resolve_dest fs_xz (expanduser sample_env (p_src ?xs))
      (expanduser sample_env (p_dest ?xs))"
    by (simp add: fs_xz_def fs_eval main_eval sample_eval)
  have c6: "isdir fs_xz (fst (path_split ''/opt/foo''))"
    by (simp add: fs_xz_def fs_eval main_eval sample_eval)
  have c8: "filetype sample_env fs_xz ''/data/foo.xz''
      = Inr ''application/x-xz; charset=binary''"
    by (simp add: fs_xz_def fs_eval main_eval sample_eval)
  have c9: "''/data/foo'' = (if snd (splitext ''/data/foo.xz'') = ''.xz''
        \<or> snd (splitext ''/data/foo.xz'') = ''.lzma''
      then fst (splitext ''/data/foo.xz'') else fst (splitext ''/data/foo.xz'') @ ''.tar'')"
    by (simp add: fs_eval)
  have c: "\<not> str_in ''gzip'' ''application/x-xz; charset=binary''
       \<and> \<not> str_in ''x-bzip2'' ''application/x-xz; charset=binary''
       \<and> str_in ''x-xz'' ''application/x-xz; charset=binary''
       \<and> snd (splitext ''/data/foo.xz'') \<in> {''.xz'', ''.lzma'', ''.txz'', ''.tlz''}
       \<and> xz_cmd sample_env fs_xz ''/data/foo.xz'' = Inr ?fx
       \<and> stat ?fx ''/data/foo'' = Some (File [1, 2] 7)
       \<and> open_wb_error ?fx ''/tmp/foo'' = None"
    by (simp add: fs_xz_def fs_eval sample_eval)
  have C: "main sample_env ?xs fs_xz
     = materialize sample_env (?fx(''/data/foo'' := None, ''/tmp/foo'' \<mapsto> File [1, 2] 7))
         ''/tmp/foo'' ''/opt/foo'' False"
    using main_routes_by_content [where out = "[1, 2]" and fsx = ?fx and mt = 7,
        OF c1 c2 ne(3) r(3) c5 c6 t c8 c9, unfolded k] c
    by blast
  \<comment> \<open>xz data in a file without extension\<close>
  have x1: "resolve_source sample_env fs_xz_plain_name (expanduser sample_env (p_src ?ps))
      (p_copy ?ps) = (Inr ''/data/foo'', fs_xz_plain_name)"
    by (simp add: fs_xz_plain_name_def fs_eval main_eval sample_eval)
  have x2: "stat fs_xz_plain_name ''/data/foo'' = Some (File [0xfd, 0x37, 1, 2] 3)"
    by (simp add: fs_xz_plain_name_def fs_eval sample_eval)
  have x5: "''/opt/foo'' = resolve_dest fs_xz_plain_name (expanduser sample_env (p_src ?ps))
      (expanduser sample_env (p_dest ?ps))"
    by (simp add: fs_xz_plain_name_def fs_eval main_eval sample_eval)
  have x6: "isdir fs_xz_plain_name (fst (path_split ''/opt/foo''))"
    by (simp add: fs_xz_plain_name_def fs_eval main_eval sample_eval)
  have x8: "filetype sample_env fs_xz_plain_name ''/data/foo''
      = Inr ''application/x-xz; charset=binary''"
    by (simp add: fs_xz_plain_name_def fs_eval main_eval sample_eval)
  have x: "\<not> str_in ''gzip'' ''application/x-xz; charset=binary''
       \<and> \<not> str_in ''x-bzip2'' ''application/x-xz; charset=binary''
       \<and> str_in ''x-xz'' ''application/x-xz; charset=binary''
       \<and> snd (splitext ''/data/foo'') \<notin> {''.xz'', ''.lzma'', ''.txz'', ''.tlz''}
       \<and> snd (splitext ''/data/foo'') = []"
    by (simp add: fs_eval)
  have X: "main sample_env ?ps fs_xz_plain_name
     = (Fail_json ''xz does not understand suffix '', fs_xz_plain_name)"
    using main_routes_by_content [where out = "[1, 2]" and fsx = fs_gz and mt = 0,
        OF x1 x2 ne(3) r(1) x5 x6 t x8 refl] x
    by simp
  from G B C X show ?thesis by blast
qed

text \<open>
  The claim C3 as stated fails: the file \<open>/data/foo\<close> holds xz data, the detector reports
  it as such, and the pipeline fails because the name has no suffix.
\<close>

theorem main_xz_without_suffix_counterexample:
  "filetype sample_env fs_xz_plain_name ''/data/foo''
     = Inr ''application/x-xz; charset=binary''
   \<and> main sample_env (invocation ''/data/foo'' ''/opt/foo'' True False) fs_xz_plain_name
       = (Fail_json ''xz does not understand suffix '', fs_xz_plain_name)"
  by (simp add: fs_xz_plain_name_def fs_eval main_eval sample_eval)

text \<open>
  Claim C7. When the source that the pipeline works on, after a download if there was
  one, has size zero, the invocation fails with the message of the empty archive. The
  file system is the one that resolving the source left: no decompressor and no detector
  has run, whatever they would have answered.
\<close>

theorem main_rejects_empty_source:
  assumes "resolve_source env fs (expanduser env (p_src ps)) (p_copy ps) = (Inr s, fs1)"
    and "getsize fs1 s = Some 0"
  shows "main env ps fs =
    (Fail_json (''Invalid archive '' @ [CHR 0x27] @ s @ [CHR 0x27]
                @ '', the file is 0 bytes''), fs1)"
  using assms by (simp add: main_def Let_def split_def)

theorem main_rejects_empty_source_witness:
  "main sample_env (invocation ''https://example.com/foo.gz'' ''/opt/foo'' False False) base_fs
     = (Fail_json (''Invalid archive '' @ [CHR 0x27] @ ''/tmp/foo.gz'' @ [CHR 0x27]
                    @ '', the file is 0 bytes''),
        base_fs(''/tmp/foo.gz'' \<mapsto> File [] 7))"
proof -
  let ?ps = "invocation ''https://example.com/foo.gz'' ''/opt/foo'' False False"
  have 1: "resolve_source sample_env base_fs (expanduser sample_env (p_src ?ps)) (p_copy ?ps)
      = (Inr ''/tmp/foo.gz'', base_fs(''/tmp/foo.gz'' \<mapsto> File [] 7))"
    by (simp add: fs_eval main_eval sample_eval)
  have 2: "getsize (base_fs(''/tmp/foo.gz'' \<mapsto> File [] 7)) ''/tmp/foo.gz'' = Some 0"
    by (simp add: fs_eval sample_eval)
  from main_rejects_empty_source [OF 1 2] show ?thesis by simp
qed

text \<open>
  Claim C8. When the pipeline reaches detection (the source is resolved and not empty,
  the destination's directory exists, the source is readable) and the detected type
  contains none of \<open>gzip\<close>, \<open>x-bzip2\<close> and \<open>x-xz\<close>, the invocation fails with a message that
  ends with the detected type as the detector printed it, and the file system is the one
  that resolving the source left: no decompressor has run.
\<close>

theorem main_rejects_unsupported_type:
  assumes "resolve_source env fs (expanduser env (p_src ps)) (p_copy ps) = (Inr s, fs1)"
    and "getsize fs1 s = Some n" and "0 < n"
    and "isdir fs1 (fst (path_split (resolve_dest fs (expanduser env (p_src ps))
            (expanduser env (p_dest ps)))))"
    and "os_access env fs1 s"
    and "filetype env fs1 s = Inr ftype"
    and "\<not> str_in ''gzip'' ftype" and "\<not> str_in ''x-bzip2'' ftype"
    and "\<not> str_in ''x-xz'' ftype"
  shows "main env ps fs =
    (Fail_json (''Filetype not supported by uncompress module. '' @ ftype), fs1)"
  using assms by (simp add: main_def Let_def split_def decompress_def)

theorem main_rejects_unsupported_type_witness:
  "main sample_env (invocation ''/data/notes.txt'' ''/opt/notes'' True False) fs_text
     = (Fail_json
          ''Filetype not supported by uncompress module. text/plain; charset=us-ascii'',
        fs_text)"
proof -
  let ?ps = "invocation ''/data/notes.txt'' ''/opt/notes'' True False"
  have 1: "resolve_source sample_env fs_text (expanduser sample_env (p_src ?ps)) (p_copy ?ps)
      = (Inr ''/data/notes.txt'', fs_text)"
    by (simp add: fs_text_def fs_eval main_eval sample_eval)
  have 2: "getsize fs_text ''/data/notes.txt'' = Some 2"
    by (simp add: fs_text_def fs_eval sample_eval)
  have 3: "(0::nat) < 2" by simp
  have 4: "isdir fs_text (fst (path_split (resolve_dest fs_text
      (expanduser sample_env (p_src ?ps)) (expanduser sample_env (p_dest ?ps)))))"
    by (simp add: fs_text_def fs_eval main_eval sample_eval)
  have 5: "os_access sample_env fs_text ''/data/notes.txt''"
    by (simp add: fs_text_def fs_eval main_eval sample_eval)
  have 6: "filetype sample_env fs_text ''/data/notes.txt''
      = Inr ''text/plain; charset=us-ascii''"
    by (simp add: fs_text_def fs_eval main_eval sample_eval)
  have 7: "\<not> str_in ''gzip'' ''text/plain; charset=us-ascii''"
    and 8: "\<not> str_in ''x-bzip2'' ''text/plain; charset=us-ascii''"
    and 9: "\<not> str_in ''x-xz'' ''text/plain; charset=us-ascii''"
    by (simp_all add: startswith_def)
  from main_rejects_unsupported_type [OF 1 2 3 4 5 6 7 8 9] show ?thesis by simp
qed

text \<open>
  Claim C9. When the resolved destination is a file directly in \<open>/tmp\<close>, the temp path
  that the pipeline computes is the destination itself. Then the decompressor writes
  straight onto the destination: for gzip or bzip2 data that decodes, whatever the
  destination held, or if it did not exist, the state that reaches the materializer has
  the decoded bytes at the destination; for xz data under an accepted name, the file that
  \<^verbatim>\<open>xz\<close> left is moved onto the destination. In both cases the materializer compares the
  destination with itself, returns \<open>changed = False\<close> and changes nothing, and the
  invocation exits with the answer of the attribute step to \<open>False\<close>.
\<close>

theorem main_tmp_dest_reports_unchanged:
  assumes "resolve_source env fs (expanduser env (p_src ps)) (p_copy ps) = (Inr s, fs1)"
    and "stat fs1 s = Some (File c m)" and "c \<noteq> []" and "readable env s"
    and "dest = resolve_dest fs (expanduser env (p_src ps)) (expanduser env (p_dest ps))"
    and "dest = ''/tmp/'' @ name" and "name \<noteq> []" and "CHR ''/'' \<notin> set name"
    and "isdir fs1 ''/tmp''"
    and "filetype env fs1 s = Inr ftype"
    and "ufile = (if snd (splitext s) = ''.xz'' \<or> snd (splitext s) = ''.lzma''
                  then fst (splitext s) else fst (splitext s) @ ''.tar'')"
  shows "path_join tempdir (snd (path_split dest)) = dest
     \<and> ((str_in ''gzip'' ftype \<and> gzip_decode env c = Decoded out
           \<or> \<not> str_in ''gzip'' ftype \<and> str_in ''x-bzip2'' ftype
              \<and> bz2_decode env c = Decoded out)
          \<and> \<not> isdir fs1 dest \<and> dest \<noteq> s \<longrightarrow>
          main env ps fs =
            materialize env (fs1(dest \<mapsto> File out (clock env))) dest dest (p_deep_check ps)
          \<and> copyfile (fs1(dest \<mapsto> File out (clock env))) dest dest (p_deep_check ps)
              = (Inr False, fs1(dest \<mapsto> File out (clock env)))
          \<and> (set_fs_attributes_if_different env (fs1(dest \<mapsto> File out (clock env))) dest
                False = Attrs ch \<longrightarrow>
              main env ps fs = (Exit_json ch dest, fs1(dest \<mapsto> File out (clock env)))))
     \<and> (\<not> str_in ''gzip'' ftype \<and> \<not> str_in ''x-bzip2'' ftype \<and> str_in ''x-xz'' ftype
          \<and> snd (splitext s) \<in> {''.xz'', ''.lzma'', ''.txz'', ''.tlz''}
          \<and> xz_cmd env fs1 s = Inr fsx \<and> stat fsx ufile = Some (File out mt)
          \<and> open_wb_error fsx dest = None \<longrightarrow>
          main env ps fs =
            materialize env ((fsx(ufile := None))(dest \<mapsto> File out mt)) dest dest
              (p_deep_check ps)
          \<and> copyfile ((fsx(ufile := None))(dest \<mapsto> File out mt)) dest dest (p_deep_check ps)
              = (Inr False, (fsx(ufile := None))(dest \<mapsto> File out mt))
          \<and> (set_fs_attributes_if_different env ((fsx(ufile := None))(dest \<mapsto> File out mt))
                dest False = Attrs ch \<longrightarrow>
              main env ps fs = (Exit_json ch dest, (fsx(ufile := None))(dest \<mapsto> File out mt))))"
proof -
  note pl = tmp_dest_plain [OF assms(8,7)]
  have t: "dest = path_join tempdir (snd (path_split dest))"
    using tmp_dest_is_temp [OF assms(8,7)] assms(6) by simp
  have ps: "fst (path_split dest) = ''/tmp''"
    using path_split_tmp [OF assms(8)] assms(6) by simp
  have dir: "isdir fs1 (fst (path_split dest))" using assms(9) ps by simp
  have dp: "dest \<noteq> []" "\<not> endswith dest ''/''" using pl assms(6) by simp_all
  have stream: "main env ps fs =
            materialize env (fs1(dest \<mapsto> File out (clock env))) dest dest (p_deep_check ps)
          \<and> copyfile (fs1(dest \<mapsto> File out (clock env))) dest dest (p_deep_check ps)
              = (Inr False, fs1(dest \<mapsto> File out (clock env)))
          \<and> (set_fs_attributes_if_different env (fs1(dest \<mapsto> File out (clock env))) dest
                False = Attrs ch \<longrightarrow>
              main env ps fs = (Exit_json ch dest, fs1(dest \<mapsto> File out (clock env))))"
    if f: "str_in ''gzip'' ftype \<and> gzip_decode env c = Decoded out
           \<or> \<not> str_in ''gzip'' ftype \<and> str_in ''x-bzip2'' ftype
              \<and> bz2_decode env c = Decoded out"
      and nd: "\<not> isdir fs1 dest" and ns: "dest \<noteq> s"
  proof -
    have w: "open_wb_error fs1 dest = None"
      using dp nd dir by (simp add: open_wb_error_def Let_def)
    have m: "main env ps fs =
        materialize env (fs1(dest \<mapsto> File out (clock env))) dest dest (p_deep_check ps)"
      using main_stream [OF assms(1-5) dir t assms(10) w ns f] .
    have e: "(fs1(dest \<mapsto> File out (clock env))) dest = Some (File out (clock env))" by simp
    note ms = materialize_self [where fs = "fs1(dest \<mapsto> File out (clock env))" and d = dest,
        OF e dp]
    show ?thesis using m ms(1) [of "p_deep_check ps"] ms(2) [of env "p_deep_check ps"]
      by simp
  qed
  have xz: "main env ps fs =
            materialize env ((fsx(ufile := None))(dest \<mapsto> File out mt)) dest dest
              (p_deep_check ps)
          \<and> copyfile ((fsx(ufile := None))(dest \<mapsto> File out mt)) dest dest (p_deep_check ps)
              = (Inr False, (fsx(ufile := None))(dest \<mapsto> File out mt))
          \<and> (set_fs_attributes_if_different env ((fsx(ufile := None))(dest \<mapsto> File out mt))
                dest False = Attrs ch \<longrightarrow>
              main env ps fs = (Exit_json ch dest, (fsx(ufile := None))(dest \<mapsto> File out mt)))"
    if r: "\<not> str_in ''gzip'' ftype" "\<not> str_in ''x-bzip2'' ftype" "str_in ''x-xz'' ftype"
      and sx: "snd (splitext s) \<in> {''.xz'', ''.lzma'', ''.txz'', ''.tlz''}"
      and x: "xz_cmd env fs1 s = Inr fsx" "stat fsx ufile = Some (File out mt)"
        "open_wb_error fsx dest = None"
  proof -
    have m: "main env ps fs =
        materialize env ((fsx(ufile := None))(dest \<mapsto> File out mt)) dest dest (p_deep_check ps)"
      using main_xz [OF assms(1-5) dir t assms(10) r sx assms(11) x] .
    have e: "((fsx(ufile := None))(dest \<mapsto> File out mt)) dest = Some (File out mt)" by simp
    note ms = materialize_self [where fs = "(fsx(ufile := None))(dest \<mapsto> File out mt)"
        and d = dest, OF e dp]
    show ?thesis using m ms(1) [of "p_deep_check ps"] ms(2) [of env "p_deep_check ps"]
      by simp
  qed
  show ?thesis
  proof (intro conjI)
    show "path_join tempdir (snd (path_split dest)) = dest" using t by simp
  qed (use stream xz in blast)+
qed

theorem main_tmp_dest_reports_unchanged_witness:
  "stat fs_gz ''/tmp/foo'' = None
   \<and> main sample_env (invocation ''/data/foo.gz'' ''/tmp/foo'' True True) fs_gz
       = (Exit_json False ''/tmp/foo'', fs_gz(''/tmp/foo'' \<mapsto> File [1, 2] 7))
   \<and> stat (fs_gz(''/tmp/foo'' \<mapsto> File [9, 9, 9] 3)) ''/tmp/foo'' = Some (File [9, 9, 9] 3)
   \<and> main sample_env (invocation ''/data/foo.gz'' ''/tmp/foo'' True True)
         (fs_gz(''/tmp/foo'' \<mapsto> File [9, 9, 9] 3))
       = (Exit_json False ''/tmp/foo'', fs_gz(''/tmp/foo'' \<mapsto> File [1, 2] 7))
   \<and> main sample_env (invocation ''/data/foo.xz'' ''/tmp/foo'' True False) fs_xz
       = (Exit_json False ''/tmp/foo'',
          (fs_xz(''/data/foo'' \<mapsto> File [1, 2] 7))(''/data/foo'' := None,
             ''/tmp/foo'' \<mapsto> File [1, 2] 7))"
proof -
  let ?ps = "invocation ''/data/foo.gz'' ''/tmp/foo'' True True"
  let ?xs = "invocation ''/data/foo.xz'' ''/tmp/foo'' True False"
  let ?old = "fs_gz(''/tmp/foo'' \<mapsto> File [9, 9, 9] 3)"
  let ?fx = "fs_xz(''/data/foo'' \<mapsto> File [1, 2] 7)"
  have n: "''foo'' \<noteq> []" "CHR ''/'' \<notin> set ''foo''" by simp_all
  have d: "''/tmp/foo'' = ''/tmp/'' @ ''foo''" by simp
  have ne: "[0x1f, 0x8b, 1, 2] \<noteq> ([] :: byte list)" "[0xfd, 0x37, 1, 2] \<noteq> ([] :: byte list)"
    by simp_all
  have r: "readable sample_env ''/data/foo.gz''" "readable sample_env ''/data/foo.xz''"
    by (simp_all add: sample_env_def)
  have g: "str_in ''gzip'' ''application/gzip; charset=binary''
       \<and> gzip_decode sample_env [0x1f, 0x8b, 1, 2] = Decoded [1, 2]"
    by (simp add: sample_env_def unwrap_def startswith_def)
  have k: "clock sample_env = 7" by (simp add: sample_env_def)
  have a: "\<And>f. set_fs_attributes_if_different sample_env f ''/tmp/foo'' False = Attrs False"
    by (simp add: sample_env_def)
  \<comment> \<open>the destination does not exist\<close>
  have a0: "stat fs_gz ''/tmp/foo'' = None" by (simp add: fs_gz_def fs_eval sample_eval)
  have a1: "resolve_source sample_env fs_gz (expanduser sample_env (p_src ?ps)) (p_copy ?ps)
      = (Inr ''/data/foo.gz'', fs_gz)"
    by (simp add: fs_gz_def fs_eval main_eval sample_eval)
  have a2: "stat fs_gz ''/data/foo.gz'' = Some (File [0x1f, 0x8b, 1, 2] 3)"
    by (simp add: fs_gz_def fs_eval sample_eval)
  have a5: "''/tmp/foo'' = resolve_dest fs_gz (expanduser sample_env (p_src ?ps))
      (expanduser sample_env (p_dest ?ps))"
    by (simp add: fs_gz_def fs_eval main_eval sample_eval)
  have a9: "isdir fs_gz ''/tmp''" by (simp add: fs_gz_def fs_eval sample_eval)
  have a10: "filetype sample_env fs_gz ''/data/foo.gz'' = Inr ''application/gzip; charset=binary''"
    by (simp add: fs_gz_def fs_eval main_eval sample_eval)
  have a11: "\<not> isdir fs_gz ''/tmp/foo'' \<and> ''/tmp/foo'' \<noteq> ''/data/foo.gz''"
    by (simp add: fs_gz_def fs_eval sample_eval)
  have A: "main sample_env ?ps fs_gz
      = (Exit_json False ''/tmp/foo'', fs_gz(''/tmp/foo'' \<mapsto> File [1, 2] 7))"
    using main_tmp_dest_reports_unchanged [where out = "[1, 2]" and ch = False and fsx = fs_gz and mt = 0,
        OF a1 a2 ne(1) r(1) a5 d n a9 a10 refl, unfolded k] g a11 a
    by blast
  \<comment> \<open>the destination holds other bytes\<close>
  have b0: "stat ?old ''/tmp/foo'' = Some (File [9, 9, 9] 3)" by (simp add: fs_eval)
  have b1: "resolve_source sample_env ?old (expanduser sample_env (p_src ?ps)) (p_copy ?ps)
      = (Inr ''/data/foo.gz'', ?old)"
    by (simp add: fs_gz_def fs_eval main_eval sample_eval)
  have b2: "stat ?old ''/data/foo.gz'' = Some (File [0x1f, 0x8b, 1, 2] 3)"
    by (simp add: fs_gz_def fs_eval sample_eval)
  have b5: "''/tmp/foo'' = resolve_dest ?old (expanduser sample_env (p_src ?ps))
      (expanduser sample_env (p_dest ?ps))"
    by (simp add: fs_gz_def fs_eval main_eval sample_eval)
  have b9: "isdir ?old ''/tmp''" by (simp add: fs_gz_def fs_eval sample_eval)
  have b10: "filetype sample_env ?old ''/data/foo.gz'' = Inr ''application/gzip; charset=binary''"
    by (simp add: fs_gz_def fs_eval main_eval sample_eval)
  have b11: "\<not> isdir ?old ''/tmp/foo'' \<and> ''/tmp/foo'' \<noteq> ''/data/foo.gz''"
    by (simp add: fs_gz_def fs_eval sample_eval)
  have B: "main sample_env ?ps ?old
      = (Exit_json False ''/tmp/foo'', fs_gz(''/tmp/foo'' \<mapsto> File [1, 2] 7))"
    using main_tmp_dest_reports_unchanged [where out = "[1, 2]" and ch = False and fsx = fs_gz and mt = 0,
        OF b1 b2 ne(1) r(1) b5 d n b9 b10 refl, unfolded k fun_upd_upd] g b11 a
    by blast
  \<comment> \<open>xz data\<close>
  have c1: "resolve_source sample_env fs_xz (expanduser sample_env (p_src ?xs)) (p_copy ?xs)
      = (Inr ''/data/foo.xz'', fs_xz)"
    by (simp add: fs_xz_def fs_eval main_eval sample_eval)
  have c2: "stat fs_xz ''/data/foo.xz'' = Some (File [0xfd, 0x37, 1, 2] 3)"
    by (simp add: fs_xz_def fs_eval sample_eval)
  have c5: "''/tmp/foo'' = resolve_dest fs_xz (expanduser sample_env (p_src ?xs))
      (expanduser sample_env (p_dest ?xs))"
    by (simp add: fs_xz_def fs_eval main_eval sample_eval)
  have c9: "isdir fs_xz ''/tmp''" by (simp add: fs_xz_def fs_eval sample_eval)
  have c10: "filetype sample_env fs_xz ''/data/foo.xz'' = Inr ''application/x-xz; charset=binary''"
    by (simp add: fs_xz_def fs_eval main_eval sample_eval)
  have c11: "''/data/foo'' = (if snd (splitext ''/data/foo.xz'') = ''.xz''
        \<or> snd (splitext ''/data/foo.xz'') = ''.lzma''
      then fst (splitext ''/data/foo.xz'') else fst (splitext ''/data/foo.xz'') @ ''.tar'')"
    by (simp add: fs_eval)
  have x: "\<not> str_in ''gzip'' ''application/x-xz; charset=binary''
       \<and> \<not> str_in ''x-bzip2'' ''application/x-xz; charset=binary''
       \<and> str_in ''x-xz'' ''application/x-xz; charset=binary''
       \<and> snd (splitext ''/data/foo.xz'') \<in> {''.xz'', ''.lzma'', ''.txz'', ''.tlz''}
       \<and> xz_cmd sample_env fs_xz ''/data/foo.xz'' = Inr ?fx
       \<and> stat ?fx ''/data/foo'' = Some (File [1, 2] 7)
       \<and> open_wb_error ?fx ''/tmp/foo'' = None"
    by (simp add: fs_xz_def fs_eval sample_eval)
  have C: "main sample_env ?xs fs_xz
      = (Exit_json False ''/tmp/foo'',
          ?fx(''/data/foo'' := None, ''/tmp/foo'' \<mapsto> File [1, 2] 7))"
    using main_tmp_dest_reports_unchanged [where out = "[1, 2]" and ch = False and fsx = ?fx and mt = 7,
        OF c1 c2 ne(2) r(2) c5 d n c9 c10 c11, unfolded k] x a
    by blast
  from a0 A b0 B C show ?thesis by blast
qed

text \<open>
  Whatever the format: an invocation with such a destination that ends in
  \<^verbatim>\<open>exit_json\<close> with a regular file at the destination had the materializer return
  \<open>False\<close>. (Only a destination that is a directory, which the xz path can meet, makes
  the materializer answer otherwise.)
\<close>

lemma main_tmp_dest_exit:
  assumes "resolve_dest fs (expanduser env (p_src ps)) (expanduser env (p_dest ps))
      = ''/tmp/'' @ name"
    and "name \<noteq> []" and "CHR ''/'' \<notin> set name"
    and "main env ps fs = (Exit_json changed d, fs')"
    and "isfile fs' d"
  shows "d = ''/tmp/'' @ name \<and> path_join tempdir (snd (path_split d)) = d
     \<and> copyfile fs' d d (p_deep_check ps) = (Inr False, fs')
     \<and> set_fs_attributes_if_different env fs' d False = Attrs changed"
proof -
  from main_Exit [OF assms(4)] assms(1) obtain fs2 where d: "d = ''/tmp/'' @ name"
    and m: "materialize env fs2 (path_join tempdir (snd (path_split d))) d (p_deep_check ps)
      = (Exit_json changed d, fs')"
    by auto
  from d assms(2,3) have t: "path_join tempdir (snd (path_split d)) = d"
    using tmp_dest_is_temp by simp
  from materialize_Exit [OF m] t obtain ch where
    c: "copyfile fs2 d d (p_deep_check ps) = (Inr ch, fs')"
    and a: "set_fs_attributes_if_different env fs' d ch = Attrs changed"
    by auto
  from c have "fs' = fs2" by (auto simp: copyfile_self split: if_splits)
  with c assms(5) have "ch = False" by (auto simp: copyfile_self split: if_splits)
  with c a t d \<open>fs' = fs2\<close> show ?thesis by simp
qed

text \<open>
  Claim C6, on the input where the code departs from it. The claim: of two invocations
  in succession with the same source, destination and bytes, the first, which finds no
  destination, reports \<open>changed = True\<close> and the second \<open>changed = False\<close>. With the
  destination \<open>/tmp/foo\<close>, which the module's documentation gives as its first example,
  the temp file is the destination: the first invocation creates the destination and
  reports \<open>changed = False\<close>, as the second does.
\<close>

theorem main_tmp_dest_first_run_unchanged:
  "stat fs_gz ''/tmp/foo'' = None
   \<and> main sample_env (invocation ''/data/foo.gz'' ''/tmp/foo'' True False) fs_gz
       = (Exit_json False ''/tmp/foo'', fs_gz(''/tmp/foo'' \<mapsto> File [1, 2] 7))
   \<and> main sample_env (invocation ''/data/foo.gz'' ''/tmp/foo'' True False)
         (fs_gz(''/tmp/foo'' \<mapsto> File [1, 2] 7))
       = (Exit_json False ''/tmp/foo'', fs_gz(''/tmp/foo'' \<mapsto> File [1, 2] 7))"
  by (simp add: fs_gz_def fs_eval main_eval sample_eval)

text \<open>
  The second invocation departs from the claim on another input as well: when the
  destination is the very file that \<^verbatim>\<open>xz\<close> writes beside its source, the module moves
  the destination to the temp path and back, and reports \<open>changed = True\<close> every time.
\<close>

lemma main_xz_output_is_dest:
  "stat fs_xz ''/data/foo'' = None
   \<and> main sample_env (invocation ''/data/foo.xz'' ''/data/foo'' True False) fs_xz
       = (Exit_json True ''/data/foo'', fs_xz(''/data/foo'' \<mapsto> File [1, 2] 7))
   \<and> main sample_env (invocation ''/data/foo.xz'' ''/data/foo'' True False)
         (fs_xz(''/data/foo'' \<mapsto> File [1, 2] 7))
       = (Exit_json True ''/data/foo'', fs_xz(''/data/foo'' \<mapsto> File [1, 2] 7))"
  by (simp add: fs_xz_def fs_eval main_eval sample_eval fun_upd_twist)

text \<open>
  Away from these inputs the claim holds for the two in-process formats. When the temp
  path is neither the destination nor the source and can be written, the destination
  does not exist, its directory does, the detector answers by the bytes of the source
  and the attribute step changes nothing, the first invocation moves the decoded bytes
  into place and reports \<open>True\<close>, and the second, at any later time, reports \<open>False\<close>
  and leaves its temp file behind.
\<close>

lemma materialize_new_dest:
  assumes t: "fs t = Some (File out k)" "t \<noteq> []" "\<not> endswith t ''/''"
    and d: "fs dest = None" "dest \<noteq> []" "\<not> endswith dest ''/''"
    and dir: "isdir fs (fst (path_split dest))"
    and a: "set_fs_attributes_if_different env ((fs(t := None))(dest \<mapsto> File out k)) dest True = Attrs ch"
  shows "materialize env fs t dest deep = (Exit_json ch dest, (fs(t := None))(dest \<mapsto> File out k))"
proof -
  from t have st: "stat fs t = Some (File out k)" by (simp add: stat_plain)
  from d have sd: "stat fs dest = None" by (simp add: stat_plain)
  from sd d dir have "open_wb_error fs dest = None"
    by (simp add: open_wb_error_def Let_def isdir_def)
  with st sd have "shutil_move fs t dest = Inr ((fs(t := None))(dest \<mapsto> File out k))"
    by (simp add: shutil_move_def move_to_def isdir_def isfile_def)
  with sd a show ?thesis by (simp add: materialize_def copyfile_def isfile_def)
qed

lemma materialize_same_content:
  assumes t: "stat fs t = Some (File out k)" and d: "stat fs dest = Some (File out k')"
    and a: "set_fs_attributes_if_different env fs dest False = Attrs ch"
  shows "materialize env fs t dest deep = (Exit_json ch dest, fs)"
  using assms
  by (cases deep) (simp_all add: materialize_def copyfile_def isfile_def filecmp_cmp_def getsize_def)

lemma main_twice_stream:
  assumes s: "s = expanduser env (p_src ps)" "stat fs s = Some (File c m)" "c \<noteq> []"
      "readable env s"
    and dest: "dest = resolve_dest fs s (expanduser env (p_dest ps))" "stat fs dest = None"
      "isdir fs (fst (path_split dest))"
    and temp: "tempsrc = path_join tempdir (snd (path_split dest))"
      "open_wb_error fs tempsrc = None" "tempsrc \<noteq> s" "tempsrc \<noteq> dest"
    and ftype: "\<And>f. stat f s = Some (File c m) \<Longrightarrow> filetype env f s = Inr ftype"
    and fmt: "str_in ''gzip'' ftype \<and> gzip_decode env c = Decoded out
       \<or> \<not> str_in ''gzip'' ftype \<and> str_in ''x-bzip2'' ftype \<and> bz2_decode env c = Decoded out"
    and attrs: "\<And>f ch. set_fs_attributes_if_different env f dest ch = Attrs ch"
    and fs1: "fs1 = (fs(tempsrc := None))(dest \<mapsto> File out (clock env))"
    and later: "env2 = env\<lparr>clock := k\<rparr>"
  shows "main env ps fs = (Exit_json True dest, fs1)"
    and "main env2 ps fs1 = (Exit_json False dest, fs1(tempsrc \<mapsto> File out k))"
proof -
  let ?k = "clock env"
  note tp = open_wb_okD [OF temp(2)]
  have dp: "dest \<noteq> []" "\<not> endswith dest ''/''"
    using temp_ok_dest_plain temp(1,2) by auto
  note sp = stat_FileD [OF s(2)]
  from dest(2) dp have d0: "fs dest = None" by (simp add: stat_plain)
  from s(2) dest(2) have sd: "s \<noteq> dest" by auto
  \<comment> \<open>the first invocation\<close>
  have r1: "resolve_source env fs (expanduser env (p_src ps)) (p_copy ps) = (Inr s, fs)"
    using s(1,2) by (simp add: resolve_source_def exists_def)
  have m1: "main env ps fs = materialize env (fs(tempsrc \<mapsto> File out ?k)) tempsrc dest (p_deep_check ps)"
    using main_stream [OF r1 s(2,3,4) _ dest(3) temp(1) ftype [OF s(2)] temp(2,3) fmt] dest(1) s(1)
    by simp
  have dir2: "isdir (fs(tempsrc \<mapsto> File out ?k)) (fst (path_split dest))"
    using isdir_upd_other [OF dest(3) tp(3) tp(1) tp(2)] .
  have e: "(fs(tempsrc \<mapsto> File out ?k))(tempsrc := None) = fs(tempsrc := None)" by simp
  have "materialize env (fs(tempsrc \<mapsto> File out ?k)) tempsrc dest (p_deep_check ps)
      = (Exit_json True dest, fs1)"
    unfolding fs1 e [symmetric]
    by (rule materialize_new_dest) (use tp dp d0 temp(4) dir2 attrs in auto)
  with m1 show "main env ps fs = (Exit_json True dest, fs1)" by simp
  \<comment> \<open>the second invocation\<close>
  have s1: "stat fs1 s = Some (File c m)"
    unfolding fs1 using sp temp(3) sd by (simp add: stat_def)
  have t1: "\<not> isdir (fs(tempsrc := None)) dest" using d0 dp temp(4) by (simp add: isdir_def stat_plain)
  have dirt: "isdir (fs(tempsrc := None)) (fst (path_split dest))"
    using isdir_upd_other [OF dest(3) tp(3) tp(1) tp(2)] .
  have dir1: "isdir fs1 (fst (path_split dest))"
    unfolding fs1 using isdir_upd_other [OF dirt t1 dp] .
  have rd: "resolve_dest fs1 s (expanduser env (p_dest ps)) = dest"
  proof (cases "isdir fs (expanduser env (p_dest ps))")
    case True
    have "isdir (fs(tempsrc := None)) (expanduser env (p_dest ps))"
      using isdir_upd_other [OF True tp(3) tp(1) tp(2)] .
    then have "isdir fs1 (expanduser env (p_dest ps))"
      unfolding fs1 using isdir_upd_other [OF _ t1 dp] by blast
    with True dest(1) show ?thesis by (simp add: resolve_dest_def)
  next
    case False
    with dest(1) have "dest = expanduser env (p_dest ps)" by (simp add: resolve_dest_def)
    moreover have "\<not> isdir fs1 dest" unfolding fs1 using dp by (simp add: isdir_def stat_plain)
    ultimately show ?thesis by (simp add: resolve_dest_def)
  qed
  have r2: "resolve_source env2 fs1 (expanduser env2 (p_src ps)) (p_copy ps) = (Inr s, fs1)"
    using s(1) s1 later by (simp add: resolve_source_def exists_def)
  have e2: "readable env2 s" "filetype env2 fs1 s = Inr ftype"
    "str_in ''gzip'' ftype \<and> gzip_decode env2 c = Decoded out
       \<or> \<not> str_in ''gzip'' ftype \<and> str_in ''x-bzip2'' ftype \<and> bz2_decode env2 c = Decoded out"
    "\<And>f ch. set_fs_attributes_if_different env2 f dest ch = Attrs ch"
    "clock env2 = k"
    using s(4) ftype [OF s1] fmt attrs later by (simp_all add: filetype_def)
  have w2: "open_wb_error fs1 tempsrc = None"
  proof -
    have "\<not> isdir fs1 tempsrc" unfolding fs1 using tp temp(4) by (simp add: isdir_def stat_plain)
    moreover have "fst (path_split tempsrc) = [] \<or> isdir fs1 (fst (path_split tempsrc))"
    proof (cases "fst (path_split tempsrc) = []")
      case True then show ?thesis by simp
    next
      case False
      with tp(4) have p: "isdir fs (fst (path_split tempsrc))" by simp
      have "isdir (fs(tempsrc := None)) (fst (path_split tempsrc))"
        using isdir_upd_other [OF p tp(3) tp(1) tp(2)] .
      then have "isdir fs1 (fst (path_split tempsrc))"
        unfolding fs1 using isdir_upd_other [OF _ t1 dp] by blast
      then show ?thesis by simp
    qed
    ultimately show ?thesis using tp(1,2) by (auto simp: open_wb_error_def Let_def)
  qed
  have m2: "main env2 ps fs1
      = materialize env2 (fs1(tempsrc \<mapsto> File out k)) tempsrc dest (p_deep_check ps)"
    using main_stream [OF r2 s1 s(3) e2(1) _ dir1 temp(1) e2(2) w2 temp(3) e2(3)] rd s(1) later
    by simp
  have "stat (fs1(tempsrc \<mapsto> File out k)) tempsrc = Some (File out k)"
    using tp by (simp add: stat_plain)
  moreover have "stat (fs1(tempsrc \<mapsto> File out k)) dest = Some (File out ?k)"
    unfolding fs1 using dp temp(4) by (simp add: stat_plain)
  ultimately have "materialize env2 (fs1(tempsrc \<mapsto> File out k)) tempsrc dest (p_deep_check ps)
      = (Exit_json False dest, fs1(tempsrc \<mapsto> File out k))"
    using e2(4) by (rule materialize_same_content)
  with m2 show "main env2 ps fs1 = (Exit_json False dest, fs1(tempsrc \<mapsto> File out k))"
    by simp
qed


text \<open>
  Claim C10, on the input where the code departs from it. The claim: an invocation that
  fails in detection or in decompression never creates or modifies the destination.
  With the destination \<open>/tmp/foo\<close> the decompressor writes onto the destination itself:
  opening it for writing empties or creates it before the decoder fails, and what the
  decoder wrote before its error stays there. In the sample environment a gzip file that
  is corrupt after its first byte of payload leaves that one byte at the destination,
  whether the destination held other bytes before or did not exist.
\<close>

theorem main_failure_overwrites_tmp_dest:
  "stat fs_bad_gz ''/tmp/foo'' = Some (File [9, 9, 9] 3)
   \<and> main sample_env (invocation ''/data/bad.gz'' ''/tmp/foo'' True False) fs_bad_gz
       = (Fail_json ''Error -3 while decompressing data'',
          fs_bad_gz(''/tmp/foo'' \<mapsto> File [1] 7))
   \<and> stat (fs_bad_gz(''/tmp/foo'' := None)) ''/tmp/foo'' = None
   \<and> main sample_env (invocation ''/data/bad.gz'' ''/tmp/foo'' True False)
         (fs_bad_gz(''/tmp/foo'' := None))
       = (Fail_json ''Error -3 while decompressing data'',
          fs_bad_gz(''/tmp/foo'' \<mapsto> File [1] 7))"
  by (simp add: fs_bad_gz_def fs_eval main_eval sample_eval)

text \<open>
  Away from this input the claim holds for every route but xz: when the temp path is not
  the destination, a failure up to and including decompression leaves the destination
  as source resolution left it.
\<close>

lemma stream_copy_frame:
  assumes "stream_copy env decode fs s t = (msg, fs')" "p \<noteq> t"
  shows "fs' p = fs p"
  using assms
  by (auto simp: stream_copy_def Let_def write_file_def split: option.splits decoded.splits)

lemma decompress_frame:
  assumes "decompress env fs s t = (r, fs')"
    and "filetype env fs s = Inr ftype"
    and "str_in ''gzip'' ftype \<or> str_in ''x-bzip2'' ftype \<or> \<not> str_in ''x-xz'' ftype"
    and "p \<noteq> t"
  shows "fs' p = fs p"
  using assms
  by (auto simp: decompress_def ungzip_def unbzip_def split: if_splits prod.splits
      dest: stream_copy_frame)

lemma main_failure_keeps_dest:
  assumes "resolve_source env fs (expanduser env (p_src ps)) (p_copy ps) = (Inr s, fs1)"
    and "dest = resolve_dest fs (expanduser env (p_src ps)) (expanduser env (p_dest ps))"
    and "tempsrc = path_join tempdir (snd (path_split dest))"
    and "tempsrc \<noteq> dest"
    and "filetype env fs1 s = Inr ftype"
    and "str_in ''gzip'' ftype \<or> str_in ''x-bzip2'' ftype \<or> \<not> str_in ''x-xz'' ftype"
    and "main env ps fs = (Fail_json e, fs')"
    and "\<And>fs2. decompress env fs1 s tempsrc \<noteq> (Inr (), fs2)"
  shows "fs' dest = fs1 dest"
proof -
  obtain r fs2 where d: "decompress env fs1 s tempsrc = (r, fs2)" by (cases "decompress env fs1 s tempsrc")
  with assms(8) obtain e' where r: "r = Inl e'" by (cases r) auto
  from decompress_frame [OF d assms(5,6)] assms(4) have f: "fs2 dest = fs1 dest" by auto
  from assms(1,2,3,7) d r have "fs' = fs1 \<or> fs' = fs2"
    by (auto simp: main_def Let_def split_def split: option.splits if_splits)
  with f show ?thesis by auto
qed

end
